theory Spec2Isabelle
  imports Main "HOL-Library.Word" "HOL-Library.Signed_Division"
begin

section \<open>Go values used by the webhook\<close>

text \<open>
  Go strings are byte strings: \<^typ>\<open>string\<close>. A Go \<^verbatim>\<open>map[string]string\<close> may be nil;
  reading a nil map behaves like reading an empty one, but the code also compares maps with
  nil, so a map is an optional partial function and \<open>None\<close> is nil.
\<close>

type_synonym gomap = "(string \<rightharpoonup> string) option"

text \<open>\<^verbatim>\<open>m[k]\<close>: the zero value \<^verbatim>\<open>""\<close> when the map is nil or the key is missing.\<close>

definition mapGet :: "gomap \<Rightarrow> string \<Rightarrow> string" where
  "mapGet m k = (case m of None \<Rightarrow> '''' | Some f \<Rightarrow> (case f k of None \<Rightarrow> '''' | Some v \<Rightarrow> v))"

text \<open>\<^verbatim>\<open>_, ok := m[k]\<close>: whether the key is present.\<close>

definition mapHas :: "gomap \<Rightarrow> string \<Rightarrow> bool" where
  "mapHas m k = (case m of None \<Rightarrow> False | Some f \<Rightarrow> f k \<noteq> None)"

text \<open>
  \<^verbatim>\<open>strings.ToLower\<close> is the library's. It maps runes, not bytes, and it rewrites bytes
  that are not valid UTF-8, so it is not computed here: every function that calls it takes
  it as its first parameter, \<open>ToLower\<close>, and the theorems hold for every such function.
\<close>

text \<open>\<^verbatim>\<open>%d\<close> of a slice index (never negative): decimal digits, most significant first.\<close>

definition digitChar :: "nat \<Rightarrow> char" where
  "digitChar d = ''0123456789'' ! d"

fun Itoa :: "nat \<Rightarrow> string" where
  "Itoa n = (if n < 10 then [digitChar n] else Itoa (n div 10) @ [digitChar (n mod 10)])"

declare Itoa.simps [simp del]

text \<open>
  \<^verbatim>\<open>int64\<close>: 64-bit words read as two's complement. \<^verbatim>\<open>*\<close> wraps around, as \<open>*\<close> on words
  does; \<^verbatim>\<open>/\<close> truncates towards zero.
\<close>

type_synonym int64 = "64 word"

definition int64_div :: "int64 \<Rightarrow> int64 \<Rightarrow> int64" where
  "int64_div a b = word_of_int (sint a sdiv sint b)"

section \<open>Data model\<close>

record ObjectMeta =
  Name :: string
  Namespace :: string
  Labels :: gomap
  Annotations :: gomap

text \<open>
  \<^verbatim>\<open>resource.Quantity\<close> belongs to the API library. The first program reads a decoded
  quantity through \<^verbatim>\<open>MilliValue()\<close> and its \<^verbatim>\<open>Format\<close> field only, so a decoded quantity
  is the pair of these two observations. \<^verbatim>\<open>resource.NewMilliQuantity(v, f)\<close> is the quantity
  of \<open>v\<close> thousandths in format \<open>f\<close>.
\<close>

datatype Format = DecimalExponent | BinarySI | DecimalSI

record Quantity =
  MilliValue :: int64
  Format :: Format

definition NewMilliQuantity :: "int64 \<Rightarrow> Format \<Rightarrow> Quantity" where
  "NewMilliQuantity v f = \<lparr>MilliValue = v, Format = f\<rparr>"

text \<open>
  The requests of a container, a \<^verbatim>\<open>map[ResourceName]Quantity\<close>, in the order in which
  \<^verbatim>\<open>range\<close> visits them (Go leaves the order open); the names of a map are distinct.
\<close>

record Container =
  Requests :: "(string \<times> Quantity) list"

record Deployment =
  DeploymentMeta :: ObjectMeta
  Containers :: "Container list"

record Service =
  ServiceMeta :: ObjectMeta

text \<open>
  The value of a patch operation (\<^verbatim>\<open>interface{}\<close>): a one-entry string map, a string, or
  the text \<^verbatim>\<open>q.String()\<close> of a quantity, which the library computes from the quantity.
\<close>

datatype PatchValue =
    MapValue "(string \<times> string) list"
  | StringValue string
  | QuantityString Quantity

record patchOperation =
  Op :: string
  Path :: string
  Value :: PatchValue

record Status =
  Message :: string
  Reason :: string

text \<open>
  The fields of \<^verbatim>\<open>AdmissionResponse\<close> that the handlers set; \<open>'p\<close> is the encoded patch.
  A field that is left out of a Go literal has its zero value: \<open>False\<close>, \<open>None\<close>.
\<close>

record 'p AdmissionResponse =
  Allowed :: bool
  Patch :: "'p option"
  PatchType :: "string option"
  Result :: "Status option"

text \<open>The request; \<open>'raw\<close> are the undecoded bytes of an object.\<close>

record 'raw AdmissionRequest =
  Kind :: string
  ReqNamespace :: string
  ReqName :: string
  Operation :: string
  Object :: 'raw
  OldObject :: 'raw

definition rejected :: "string \<Rightarrow> 'p AdmissionResponse" where
  "rejected msg =
     \<lparr>Allowed = False, Patch = None, PatchType = None,
      Result = Some \<lparr>Message = msg, Reason = ''''\<rparr>\<rparr>"

definition allowedOnly :: "'p AdmissionResponse" where
  "allowedOnly = \<lparr>Allowed = True, Patch = None, PatchType = None, Result = None\<rparr>"

section \<open>First program: validation and direct patch construction\<close>

text \<open>\<^verbatim>\<open>metav1.NamespaceSystem\<close> and \<^verbatim>\<open>metav1.NamespacePublic\<close>.\<close>

definition NamespaceSystem :: string where
  "NamespaceSystem = ''kube-system''"

definition NamespacePublic :: string where
  "NamespacePublic = ''kube-public''"

definition ignoredNamespaces :: "string list" where
  "ignoredNamespaces = [NamespaceSystem, NamespacePublic]"

definition admissionWebhookAnnotationValidateKey :: string where
  "admissionWebhookAnnotationValidateKey = ''admission-webhook-example.qikqiak.com/validate''"

definition admissionWebhookAnnotationMutateKey :: string where
  "admissionWebhookAnnotationMutateKey = ''admission-webhook-example.qikqiak.com/mutate''"

definition admissionWebhookAnnotationStatusKey :: string where
  "admissionWebhookAnnotationStatusKey = ''admission-webhook-example.qikqiak.com/status''"

definition requiredLabels :: "string list" where
  "requiredLabels =
     [''app.kubernetes.io/name'', ''app.kubernetes.io/instance'', ''app.kubernetes.io/version'',
      ''app.kubernetes.io/component'', ''app.kubernetes.io/part-of'',
      ''app.kubernetes.io/managed-by'']"

text \<open>The loop over the ignored list: whether it returns early.\<close>

fun inIgnoredList :: "string list \<Rightarrow> string \<Rightarrow> bool" where
  "inIgnoredList [] ns = False"
| "inIgnoredList (namespace # rest) ns = (if ns = namespace then True else inIgnoredList rest ns)"

definition policySwitch :: "string \<Rightarrow> bool" where
  "policySwitch v = (if v = ''n'' \<or> v = ''no'' \<or> v = ''false'' \<or> v = ''off'' then False else True)"

definition admissionRequired ::
  "(string \<Rightarrow> string) \<Rightarrow> string list \<Rightarrow> string \<Rightarrow> ObjectMeta \<Rightarrow> bool" where
  "admissionRequired ToLower ignoredList admissionAnnotationKey metadata =
     (if inIgnoredList ignoredList (Namespace metadata) then False
      else
        let annotations = (case Annotations metadata of None \<Rightarrow> Some Map.empty | Some f \<Rightarrow> Some f)
        in policySwitch (ToLower (mapGet annotations admissionAnnotationKey)))"

definition mutationRequired :: "(string \<Rightarrow> string) \<Rightarrow> string list \<Rightarrow> ObjectMeta \<Rightarrow> bool" where
  "mutationRequired ToLower ignoredList metadata =
     (let required =
            admissionRequired ToLower ignoredList admissionWebhookAnnotationMutateKey metadata;
          annotations = (case Annotations metadata of None \<Rightarrow> Some Map.empty | Some f \<Rightarrow> Some f);
          status = mapGet annotations admissionWebhookAnnotationStatusKey
      in if ToLower status = ''mutated'' then False else required)"

definition validationRequired :: "(string \<Rightarrow> string) \<Rightarrow> string list \<Rightarrow> ObjectMeta \<Rightarrow> bool" where
  "validationRequired ToLower ignoredList metadata =
     admissionRequired ToLower ignoredList admissionWebhookAnnotationValidateKey metadata"

text \<open>
  The loop of \<^verbatim>\<open>validate\<close> over the required labels: it stops at the first label that is
  not a key of the map and returns the verdict and the result.
\<close>

fun checkRequiredLabels :: "string list \<Rightarrow> gomap \<Rightarrow> bool \<times> Status option" where
  "checkRequiredLabels [] availableLabels = (True, None)"
| "checkRequiredLabels (rl # rest) availableLabels =
     (if \<not> mapHas availableLabels rl
      then (False, Some \<lparr>Message = '''', Reason = ''required labels are not set''\<rparr>)
      else checkRequiredLabels rest availableLabels)"

definition unsupportedKindMsg :: "string \<Rightarrow> string" where
  "unsupportedKindMsg kind = [CHR 0x0A] @ ''Not support for this Kind of resource  '' @ kind"

text \<open>
  \<^verbatim>\<open>json.Unmarshal\<close> into a typed object is the library's: the decoders are parameters,
  \<open>Inl\<close> carrying the text of the error.
\<close>

definition validate ::
  "(string \<Rightarrow> string) \<Rightarrow>
   ('raw \<Rightarrow> string + Deployment) \<Rightarrow> ('raw \<Rightarrow> string + Service) \<Rightarrow>
   'raw AdmissionRequest \<Rightarrow> 'p AdmissionResponse" where
  "validate ToLower unmarshalDeployment unmarshalService req =
     (let decoded =
        (if Kind req = ''Deployment'' then
           (case unmarshalDeployment (Object req) of
              Inl err \<Rightarrow> Inl (rejected err)
            | Inr deployment \<Rightarrow> Inr (DeploymentMeta deployment))
         else if Kind req = ''Service'' then
           (case unmarshalService (Object req) of
              Inl err \<Rightarrow> Inl (rejected err)
            | Inr service \<Rightarrow> Inr (ServiceMeta service))
         else Inl (rejected (unsupportedKindMsg (Kind req))))
      in case decoded of
           Inl response \<Rightarrow> response
         | Inr objectMeta \<Rightarrow>
             if \<not> validationRequired ToLower ignoredNamespaces objectMeta then allowedOnly
             else
               (case checkRequiredLabels requiredLabels (Labels objectMeta) of
                  (allowed, result) \<Rightarrow>
                    \<lparr>Allowed = allowed, Patch = None, PatchType = None, Result = result\<rparr>))"

text \<open>
  The loop of \<^verbatim>\<open>updateAnnotation\<close> over \<open>added\<close>, given in the order in which \<^verbatim>\<open>range\<close>
  visits it. The assignment \<^verbatim>\<open>target = map[string]string{}\<close> in the first branch changes
  the map that the later iterations read.
\<close>

fun updateAnnotation :: "gomap \<Rightarrow> (string \<times> string) list \<Rightarrow> patchOperation list" where
  "updateAnnotation target [] = []"
| "updateAnnotation target ((key, value) # added) =
     (if target = None \<or> mapGet target key = ''''
      then \<lparr>Op = ''add'', Path = ''/metadata/annotations'', Value = MapValue [(key, value)]\<rparr>
             # updateAnnotation (Some Map.empty) added
      else \<lparr>Op = ''replace'', Path = ''/metadata/annotations/'' @ key, Value = StringValue value\<rparr>
             # updateAnnotation target added)"

definition requestPath :: "(string \<Rightarrow> string) \<Rightarrow> nat \<Rightarrow> string \<Rightarrow> string" where
  "requestPath ToLower i resourceName =
     ''/spec/template/spec/containers/'' @ Itoa i @ ''/resources/requests/'' @ ToLower resourceName"

definition reducedRequest ::
  "(string \<Rightarrow> string) \<Rightarrow> nat \<Rightarrow> string \<Rightarrow> Quantity \<Rightarrow> patchOperation" where
  "reducedRequest ToLower i resourceName quantity =
     (let originalValue = quantity;
          ninetyPercentValue = int64_div (MilliValue originalValue * 90) 100;
          ninetyPercentQuantity = NewMilliQuantity ninetyPercentValue (Format originalValue)
      in \<lparr>Op = ''replace'', Path = requestPath ToLower i resourceName,
          Value = QuantityString ninetyPercentQuantity\<rparr>)"

text \<open>The inner loop, over the requests of container \<open>i\<close>, and the outer loop from index \<open>i\<close>.\<close>

fun reduceRequests ::
  "(string \<Rightarrow> string) \<Rightarrow> nat \<Rightarrow> (string \<times> Quantity) list \<Rightarrow> patchOperation list" where
  "reduceRequests ToLower i [] = []"
| "reduceRequests ToLower i ((resourceName, quantity) # rest) =
     reducedRequest ToLower i resourceName quantity # reduceRequests ToLower i rest"

fun reduceContainers ::
  "(string \<Rightarrow> string) \<Rightarrow> nat \<Rightarrow> Container list \<Rightarrow> patchOperation list" where
  "reduceContainers ToLower i [] = []"
| "reduceContainers ToLower i (container # rest) =
     reduceRequests ToLower i (Requests container) @ reduceContainers ToLower (Suc i) rest"

definition applyResourceReduction ::
  "(string \<Rightarrow> string) \<Rightarrow> Container list \<Rightarrow> patchOperation list" where
  "applyResourceReduction ToLower containers = reduceContainers ToLower 0 containers"

text \<open>
  \<^verbatim>\<open>json.Marshal\<close> of the operation list. The encoded patch is represented by the list it
  encodes; strings and string maps always encode, so the result is never an error.
\<close>

definition json_Marshal :: "patchOperation list \<Rightarrow> string + patchOperation list" where
  "json_Marshal patch = Inr patch"

definition createPatch ::
  "(string \<Rightarrow> string) \<Rightarrow> gomap \<Rightarrow> (string \<times> string) list \<Rightarrow> Container list \<Rightarrow>
   string + patchOperation list" where
  "createPatch ToLower availableAnnotations annotations containers =
     json_Marshal (updateAnnotation availableAnnotations annotations
                   @ applyResourceReduction ToLower containers)"

text \<open>
  \<^verbatim>\<open>mutate\<close>: \<open>availableAnnotations\<close> is declared and never assigned, so it is nil; the
  policy check is commented out in the source and is not part of the function.
\<close>

definition mutate ::
  "(string \<Rightarrow> string) \<Rightarrow>
   ('raw \<Rightarrow> string + Deployment) \<Rightarrow> ('raw \<Rightarrow> string + Service) \<Rightarrow>
   'raw AdmissionRequest \<Rightarrow> patchOperation list AdmissionResponse" where
  "mutate ToLower unmarshalDeployment unmarshalService req =
     (let availableAnnotations = None;
          decoded =
            (if Kind req = ''Deployment'' then
               (case unmarshalDeployment (Object req) of
                  Inl err \<Rightarrow> Inl (rejected err)
                | Inr deployment \<Rightarrow> Inr (Containers deployment))
             else if Kind req = ''Service'' then
               (case unmarshalService (Object req) of
                  Inl err \<Rightarrow> Inl (rejected err)
                | Inr service \<Rightarrow> Inr [])
             else Inl (rejected (unsupportedKindMsg (Kind req))))
      in case decoded of
           Inl response \<Rightarrow> response
         | Inr containers \<Rightarrow>
             let annotations = [(admissionWebhookAnnotationStatusKey, ''mutated'')]
             in (case createPatch ToLower availableAnnotations annotations containers of
                   Inl err \<Rightarrow> rejected err
                 | Inr patchBytes \<Rightarrow>
                     \<lparr>Allowed = True, Patch = Some patchBytes, PatchType = Some ''JSONPatch'',
                      Result = None\<rparr>))"

section \<open>The shared QoS store\<close>

record QoSpec =
  Cpu :: int64
  Memory :: int64

record QoS =
  Spec :: QoSpec

text \<open>
  The global \<^verbatim>\<open>QoSInst\<close> is the state; it starts as \<^verbatim>\<open>&QoSpec{}\<close>. The methods ignore
  their receiver and work on the global, which is passed and returned here.
\<close>

definition emptyQoSpec :: QoSpec where
  "emptyQoSpec = \<lparr>Cpu = 0, Memory = 0\<rparr>"

definition initialQoSInst :: QoSpec where
  "initialQoSInst = emptyQoSpec"

definition getQoSpec :: "QoSpec \<Rightarrow> QoSpec" where
  "getQoSpec QoSInst = (if QoSInst = emptyQoSpec then \<lparr>Cpu = 200, Memory = 400\<rparr> else QoSInst)"

definition setQoSpec :: "QoSpec \<Rightarrow> QoSpec \<Rightarrow> QoSpec" where
  "setQoSpec qoSpec QoSInst = qoSpec"

section \<open>Second program: patch by structural difference\<close>

text \<open>
  This program only builds quantities; a built quantity is kept as the constructor call,
  \<^verbatim>\<open>resource.NewMilliQuantity(v, f)\<close> (\<open>v\<close> thousandths) or \<^verbatim>\<open>resource.NewQuantity(v, f)\<close>
  (\<open>v\<close> units).
\<close>

datatype Quantity_v2 =
    NewMilliQuantity_v2 int64 Format
  | NewQuantity_v2 int64 Format

record Container_v2 =
  ContainerName :: string
  Image :: string
  Command :: "string list"
  Requests_v2 :: "(string \<times> Quantity_v2) list"

record Deployment_v2 =
  DeploymentMeta_v2 :: ObjectMeta
  InitContainers :: "Container_v2 list"

definition policySwitch_v2 :: "string \<Rightarrow> bool" where
  "policySwitch_v2 v =
     (if v = ''n'' \<or> v = ''no'' \<or> v = ''false'' \<or> v = ''off'' \<or> v = '''' then False else True)"

definition mutationRequired_v2 ::
  "(string \<Rightarrow> string) \<Rightarrow> string list \<Rightarrow> ObjectMeta \<Rightarrow> bool" where
  "mutationRequired_v2 ToLower ignoredList metadata =
     (if inIgnoredList ignoredList (Namespace metadata) then False
      else
        let annotations = (case Annotations metadata of None \<Rightarrow> Some Map.empty | Some f \<Rightarrow> Some f)
        in policySwitch_v2 (ToLower (mapGet annotations admissionWebhookAnnotationMutateKey)))"

definition initContainer :: "QoSpec \<Rightarrow> Container_v2" where
  "initContainer QoSInst =
     \<lparr>ContainerName = ''init'', Image = ''busybox'',
      Command = [''/bin/sh'', ''-c'', '' echo 'init' && sleep 100 ''],
      Requests_v2 =
        [(''cpu'', NewMilliQuantity_v2 (Cpu (getQoSpec QoSInst)) DecimalSI),
         (''memory'', NewQuantity_v2 (Memory (getQoSpec QoSInst) * 1024 * 1024) BinarySI)]\<rparr>"

text \<open>
  \<^verbatim>\<open>jsondiff.Compare\<close> and \<^verbatim>\<open>json.MarshalIndent\<close> are the libraries': parameters, \<open>Inl\<close>
  carrying the text of the error.
\<close>

definition mutateDeploy ::
  "(string \<Rightarrow> string) \<Rightarrow>
   (Deployment_v2 \<Rightarrow> Deployment_v2 \<Rightarrow> string + 'patch) \<Rightarrow> ('patch \<Rightarrow> string + 'bytes) \<Rightarrow>
   QoSpec \<Rightarrow> Deployment_v2 \<Rightarrow> 'bytes AdmissionResponse" where
  "mutateDeploy ToLower Compare MarshalIndent QoSInst deploy =
     (if \<not> mutationRequired_v2 ToLower ignoredNamespaces (DeploymentMeta_v2 deploy)
      then allowedOnly
      else
        let newDeploy =
              (if length (InitContainers deploy) = 0
               then deploy\<lparr>InitContainers := [initContainer QoSInst]\<rparr>
               else deploy)
        in (case Compare deploy newDeploy of
              Inl err \<Rightarrow> rejected err
            | Inr patch \<Rightarrow>
                (case MarshalIndent patch of
                   Inl err \<Rightarrow> rejected err
                 | Inr patchBytes \<Rightarrow>
                     \<lparr>Allowed = True, Patch = Some patchBytes, PatchType = Some ''JSONPatch'',
                      Result = None\<rparr>)))"

text \<open>
  \<^verbatim>\<open>mutateQoS\<close> returns the response and the new store. Its only caller passes the address
  of a local, so \<open>qos\<close> is never nil.
\<close>

definition mutateQoS :: "QoS \<Rightarrow> string \<Rightarrow> QoSpec \<Rightarrow> 'bytes AdmissionResponse \<times> QoSpec" where
  "mutateQoS qos operation QoSInst =
     (allowedOnly,
      if operation = ''DELETE'' then setQoSpec emptyQoSpec QoSInst
      else if Spec qos \<noteq> emptyQoSpec then setQoSpec (Spec qos) QoSInst
      else QoSInst)"

definition mutate_v2 ::
  "(string \<Rightarrow> string) \<Rightarrow>
   ('raw \<Rightarrow> string + Deployment_v2) \<Rightarrow> ('raw \<Rightarrow> string + QoS) \<Rightarrow>
   (Deployment_v2 \<Rightarrow> Deployment_v2 \<Rightarrow> string + 'patch) \<Rightarrow> ('patch \<Rightarrow> string + 'bytes) \<Rightarrow>
   'raw AdmissionRequest \<Rightarrow> QoSpec \<Rightarrow> 'bytes AdmissionResponse \<times> QoSpec" where
  "mutate_v2 ToLower unmarshalDeployment unmarshalQoS Compare MarshalIndent req QoSInst =
     (if Kind req = ''Deployment'' then
        (case unmarshalDeployment (Object req) of
           Inl err \<Rightarrow> (rejected err, QoSInst)
         | Inr deployment \<Rightarrow>
             (mutateDeploy ToLower Compare MarshalIndent QoSInst deployment, QoSInst))
      else if Kind req = ''QoS'' then
        (let raw = (if Operation req = ''DELETE'' then OldObject req else Object req)
         in case unmarshalQoS raw of
              Inl err \<Rightarrow> (rejected err, QoSInst)
            | Inr qos \<Rightarrow> mutateQoS qos (Operation req) QoSInst)
      else (rejected (unsupportedKindMsg (Kind req)), QoSInst))"

section \<open>Applying a patch to the annotations\<close>

text \<open>
  Modelled from the spec: a patch is applied by the API server, outside this repository;
  section 6 of the spec gives the operations the meaning of RFC 6902 JSON Patch, applied in
  order. Only the effect on the annotations member of the metadata is followed. An
  operation whose path does not begin with \<^verbatim>\<open>/metadata/annotations\<close> acts elsewhere and
  leaves the annotations as they are; \<^verbatim>\<open>add\<close> at \<^verbatim>\<open>/metadata/annotations\<close> with a map sets the
  member to that map, whether or not a map was there; any other operation at or below that
  path is outside this model, and the result is \<open>None\<close>.
\<close>

definition annotationsPath :: string where
  "annotationsPath = ''/metadata/annotations''"

fun applyToAnnotations :: "patchOperation list \<Rightarrow> gomap \<Rightarrow> gomap option" where
  "applyToAnnotations [] annotations = Some annotations"
| "applyToAnnotations (p # ps) annotations =
     (if take (length annotationsPath) (Path p) \<noteq> annotationsPath
      then applyToAnnotations ps annotations
      else if Op p = ''add'' \<and> Path p = annotationsPath
      then (case Value p of
              MapValue kvs \<Rightarrow> applyToAnnotations ps (Some (map_of kvs))
            | _ \<Rightarrow> None)
      else None)"

section \<open>Sample requests\<close>

text \<open>
  Concrete inputs for the closed theorems below. The raw bytes of a sample request stand for
  the object they encode; the sample difference of two deployments is the pair of them.
\<close>

text \<open>
  On a string of ASCII bytes \<^verbatim>\<open>strings.ToLower\<close> maps \<^verbatim>\<open>A\<close> to \<^verbatim>\<open>Z\<close> to \<^verbatim>\<open>a\<close> to \<^verbatim>\<open>z\<close> and keeps
  every other byte. The sample function does so; the closed theorems apply it to ASCII
  strings only.
\<close>

definition asciiToLowerByte :: "char \<Rightarrow> char" where
  "asciiToLowerByte c =
     (case map_of (zip ''ABCDEFGHIJKLMNOPQRSTUVWXYZ'' ''abcdefghijklmnopqrstuvwxyz'') c of
        None \<Rightarrow> c
      | Some l \<Rightarrow> l)"

definition asciiToLower :: "string \<Rightarrow> string" where
  "asciiToLower s = map asciiToLowerByte s"

datatype sampleRaw =
    RawDeployment Deployment
  | RawService Service
  | RawDeployment_v2 Deployment_v2
  | RawQoS QoS
  | RawGarbage

fun sampleUnmarshalDeployment :: "sampleRaw \<Rightarrow> string + Deployment" where
  "sampleUnmarshalDeployment (RawDeployment d) = Inr d"
| "sampleUnmarshalDeployment _ = Inl ''cannot unmarshal''"

fun sampleUnmarshalService :: "sampleRaw \<Rightarrow> string + Service" where
  "sampleUnmarshalService (RawService s) = Inr s"
| "sampleUnmarshalService _ = Inl ''cannot unmarshal''"

fun sampleUnmarshalDeployment_v2 :: "sampleRaw \<Rightarrow> string + Deployment_v2" where
  "sampleUnmarshalDeployment_v2 (RawDeployment_v2 d) = Inr d"
| "sampleUnmarshalDeployment_v2 _ = Inl ''cannot unmarshal''"

fun sampleUnmarshalQoS :: "sampleRaw \<Rightarrow> string + QoS" where
  "sampleUnmarshalQoS (RawQoS q) = Inr q"
| "sampleUnmarshalQoS _ = Inl ''cannot unmarshal''"

definition sampleCompare ::
  "Deployment_v2 \<Rightarrow> Deployment_v2 \<Rightarrow> string + (Deployment_v2 \<times> Deployment_v2)" where
  "sampleCompare old new = Inr (old, new)"

definition sampleMarshalIndent ::
  "Deployment_v2 \<times> Deployment_v2 \<Rightarrow> string + (Deployment_v2 \<times> Deployment_v2)" where
  "sampleMarshalIndent patch = Inr patch"

definition sampleRequest :: "string \<Rightarrow> string \<Rightarrow> sampleRaw \<Rightarrow> sampleRaw AdmissionRequest" where
  "sampleRequest kind operation raw =
     \<lparr>Kind = kind, ReqNamespace = ''default'', ReqName = ''web'', Operation = operation,
      Object = (if operation = ''DELETE'' then RawGarbage else raw),
      OldObject = (if operation = ''DELETE'' then raw else RawGarbage)\<rparr>"

definition sampleMeta :: "string \<Rightarrow> gomap \<Rightarrow> gomap \<Rightarrow> ObjectMeta" where
  "sampleMeta ns labels annotations =
     \<lparr>Name = ''web'', Namespace = ns, Labels = labels, Annotations = annotations\<rparr>"

definition allRequiredLabels :: gomap where
  "allRequiredLabels =
     Some [''app.kubernetes.io/name'' \<mapsto> ''web'', ''app.kubernetes.io/instance'' \<mapsto> ''web-1'',
           ''app.kubernetes.io/version'' \<mapsto> ''1.0'', ''app.kubernetes.io/component'' \<mapsto> ''api'',
           ''app.kubernetes.io/part-of'' \<mapsto> ''shop'', ''app.kubernetes.io/managed-by'' \<mapsto> ''helm'']"

definition onlyNameLabel :: gomap where
  "onlyNameLabel = Some [''app.kubernetes.io/name'' \<mapsto> ''web'']"

definition sampleContainers :: "Container list" where
  "sampleContainers =
     [\<lparr>Requests = [(''cpu'', \<lparr>MilliValue = 250, Format = DecimalSI\<rparr>),
                   (''memory'', \<lparr>MilliValue = 134217728000, Format = BinarySI\<rparr>)]\<rparr>,
      \<lparr>Requests = [(''cpu'', \<lparr>MilliValue = 1005, Format = DecimalSI\<rparr>)]\<rparr>]"

definition sampleDeployment :: "string \<Rightarrow> gomap \<Rightarrow> gomap \<Rightarrow> Deployment" where
  "sampleDeployment ns labels annotations =
     \<lparr>DeploymentMeta = sampleMeta ns labels annotations, Containers = sampleContainers\<rparr>"

definition sampleDeployment_v2 :: "string \<Rightarrow> gomap \<Rightarrow> Deployment_v2" where
  "sampleDeployment_v2 ns annotations =
     \<lparr>DeploymentMeta_v2 = sampleMeta ns None annotations, InitContainers = []\<rparr>"

definition mutateYes :: gomap where
  "mutateYes = Some [''admission-webhook-example.qikqiak.com/mutate'' \<mapsto> ''yes'']"

definition mutateYesStatusMutated :: gomap where
  "mutateYesStatusMutated =
     Some [''admission-webhook-example.qikqiak.com/mutate'' \<mapsto> ''yes'',
           ''admission-webhook-example.qikqiak.com/status'' \<mapsto> ''mutated'']"

definition mutateNo :: gomap where
  "mutateNo = Some [''admission-webhook-example.qikqiak.com/mutate'' \<mapsto> ''No'']"

definition injectedContainer :: "int64 \<Rightarrow> int64 \<Rightarrow> Container_v2" where
  "injectedContainer cpuMilli memoryBytes =
     \<lparr>ContainerName = ''init'', Image = ''busybox'',
      Command = [''/bin/sh'', ''-c'', '' echo 'init' && sleep 100 ''],
      Requests_v2 =
        [(''cpu'', NewMilliQuantity_v2 cpuMilli DecimalSI),
         (''memory'', NewQuantity_v2 memoryBytes BinarySI)]\<rparr>"

definition statusMutated :: gomap where
  "statusMutated = Some [''admission-webhook-example.qikqiak.com/status'' \<mapsto> ''mutated'']"

text \<open>
  The sample Deployment after its patch: the annotations are the status entry and every
  request is the reduced quantity.
\<close>

definition samplePatchedDeployment :: Deployment where
  "samplePatchedDeployment =
     \<lparr>DeploymentMeta = sampleMeta ''default'' None statusMutated,
      Containers =
        [\<lparr>Requests = [(''cpu'', \<lparr>MilliValue = 225, Format = DecimalSI\<rparr>),
                      (''memory'', \<lparr>MilliValue = 120795955200, Format = BinarySI\<rparr>)]\<rparr>,
         \<lparr>Requests = [(''cpu'', \<lparr>MilliValue = 904, Format = DecimalSI\<rparr>)]\<rparr>]\<rparr>"

text \<open>
  Containers whose requests are unusual but decode: a negative quantity, two names that
  differ only in case, and a memory request of 128Ti.
\<close>

definition sampleOddContainers :: "Container list" where
  "sampleOddContainers =
     [\<lparr>Requests = [(''CPU'', \<lparr>MilliValue = - 1, Format = DecimalSI\<rparr>),
                   (''cpu'', \<lparr>MilliValue = 250, Format = DecimalSI\<rparr>)]\<rparr>,
      \<lparr>Requests = [(''memory'', \<lparr>MilliValue = 140737488355328000, Format = BinarySI\<rparr>)]\<rparr>]"

section \<open>Basic facts\<close>

lemmas sample_defs = sampleRequest_def sampleMeta_def sampleDeployment_def sampleDeployment_v2_def
  allRequiredLabels_def onlyNameLabel_def mutateYes_def mutateYesStatusMutated_def mutateNo_def
  sampleCompare_def sampleMarshalIndent_def sampleContainers_def injectedContainer_def
  statusMutated_def samplePatchedDeployment_def sampleOddContainers_def

lemmas const_defs = ignoredNamespaces_def NamespaceSystem_def NamespacePublic_def
  admissionWebhookAnnotationValidateKey_def admissionWebhookAnnotationMutateKey_def
  admissionWebhookAnnotationStatusKey_def requiredLabels_def

lemmas policy_defs = validationRequired_def admissionRequired_def mutationRequired_def
  mutationRequired_v2_def policySwitch_def policySwitch_v2_def mapGet_def mapHas_def
  asciiToLower_def asciiToLowerByte_def

lemma inIgnoredList_set: "inIgnoredList l ns \<longleftrightarrow> ns \<in> set l"
  by (induction l) auto

lemma mapGet_nil_as_empty:
  "mapGet (case m of None \<Rightarrow> Some Map.empty | Some f \<Rightarrow> Some f) k = mapGet m k"
  by (simp add: mapGet_def split: option.splits)

lemma checkRequiredLabels_all:
  "(\<forall>rl\<in>set rls. mapHas labels rl) \<Longrightarrow> checkRequiredLabels rls labels = (True, None)"
  by (induction rls) auto

lemma checkRequiredLabels_missing:
  "(\<exists>rl\<in>set rls. \<not> mapHas labels rl) \<Longrightarrow>
   checkRequiredLabels rls labels =
     (False, Some \<lparr>Message = '''', Reason = ''required labels are not set''\<rparr>)"
  by (induction rls) auto

lemma validate_decoded:
  assumes "Kind req = ''Deployment'' \<and> uD (Object req) = Inr d \<and> DeploymentMeta d = meta
         \<or> Kind req = ''Service'' \<and> uS (Object req) = Inr s \<and> ServiceMeta s = meta"
  shows "validate ToLower uD uS req =
     (if \<not> validationRequired ToLower ignoredNamespaces meta then allowedOnly
      else (case checkRequiredLabels requiredLabels (Labels meta) of
              (allowed, result) \<Rightarrow>
                \<lparr>Allowed = allowed, Patch = None, PatchType = None, Result = result\<rparr>))"
  using assms by (auto simp: validate_def)

lemma mutate_Deployment:
  assumes "Kind req = ''Deployment''" and "uD (Object req) = Inr d"
  shows "mutate ToLower uD uS req =
     \<lparr>Allowed = True,
      Patch = Some (\<lparr>Op = ''add'', Path = ''/metadata/annotations'',
                     Value = MapValue [(admissionWebhookAnnotationStatusKey, ''mutated'')]\<rparr>
                    # applyResourceReduction ToLower (Containers d)),
      PatchType = Some ''JSONPatch'', Result = None\<rparr>"
  using assms by (simp add: mutate_def createPatch_def json_Marshal_def)

lemma mutate_Service:
  assumes "Kind req = ''Service''" and "uS (Object req) = Inr s"
  shows "mutate ToLower uD uS req =
     \<lparr>Allowed = True,
      Patch = Some [\<lparr>Op = ''add'', Path = ''/metadata/annotations'',
                     Value = MapValue [(admissionWebhookAnnotationStatusKey, ''mutated'')]\<rparr>],
      PatchType = Some ''JSONPatch'', Result = None\<rparr>"
  using assms
  by (simp add: mutate_def createPatch_def json_Marshal_def applyResourceReduction_def)

lemma mutationRequired_v2_ignored:
  "Namespace meta \<in> set ignoredList \<Longrightarrow> \<not> mutationRequired_v2 ToLower ignoredList meta"
  by (simp add: mutationRequired_v2_def inIgnoredList_set)

lemma validationRequired_ignored:
  "Namespace meta \<in> set ignoredList \<Longrightarrow> \<not> validationRequired ToLower ignoredList meta"
  by (simp add: validationRequired_def admissionRequired_def inIgnoredList_set)

lemma int64_mul_in_range:
  fixes m c :: int64
  assumes "- (2 ^ 63) \<le> sint m * sint c" and "sint m * sint c < 2 ^ 63"
  shows "sint (m * c) = sint m * sint c"
  using assms by (simp add: sint_word_ariths signed_take_bit_int_eq_self)

lemma mebibytes_in_range:
  fixes m :: int64
  assumes "- (2 ^ 43) \<le> sint m" and "sint m < 2 ^ 43"
  shows "sint (m * 1024 * 1024) = sint m * 1048576"
proof -
  have "sint (m * 1048576) = sint m * sint (1048576 :: int64)"
    using assms by (intro int64_mul_in_range) auto
  then have h: "sint (m * 1048576) = sint m * 1048576"
    by simp
  have e: "m * 1024 * 1024 = m * 1048576"
    by simp
  show ?thesis
    by (subst e) (rule h)
qed




section \<open>Unsupported kinds\<close>

text \<open>
  C9. A request whose kind is outside the supported set of a program (Deployment and Service
  for the first program, Deployment and QoS for the second) is answered by \<open>validate\<close> and
  by both \<open>mutate\<close> functions with a response in which \<open>Allowed\<close> is unset, there is no patch,
  and the message of the result is the fixed text followed by the kind. The functions
  return this response as a value; the second program leaves the store as it was.
\<close>

theorem unsupported_kind_rejected:
  "(Kind req \<noteq> ''Deployment'' \<and> Kind req \<noteq> ''Service'' \<longrightarrow>
      validate ToLower uD uS req =
        (\<lparr>Allowed = False, Patch = None, PatchType = None,
          Result = Some \<lparr>Message = [CHR 0x0A] @ ''Not support for this Kind of resource  ''
                                     @ Kind req, Reason = ''''\<rparr>\<rparr> :: 'p AdmissionResponse)
      \<and> mutate ToLower uD uS req =
        \<lparr>Allowed = False, Patch = None, PatchType = None,
         Result = Some \<lparr>Message = [CHR 0x0A] @ ''Not support for this Kind of resource  ''
                                    @ Kind req, Reason = ''''\<rparr>\<rparr>)
   \<and> (Kind req \<noteq> ''Deployment'' \<and> Kind req \<noteq> ''QoS'' \<longrightarrow>
      mutate_v2 ToLower vD vQ cmp mi req QoSInst =
        (\<lparr>Allowed = False, Patch = None, PatchType = None,
          Result = Some \<lparr>Message = [CHR 0x0A] @ ''Not support for this Kind of resource  ''
                                     @ Kind req, Reason = ''''\<rparr>\<rparr>, QoSInst))"
  by (simp add: validate_def mutate_def mutate_v2_def rejected_def unsupportedKindMsg_def)

text \<open>The theorem at a request of kind ConfigMap.\<close>

theorem unsupported_kind_rejected_witness:
  "Kind (sampleRequest ''ConfigMap'' ''CREATE'' RawGarbage) \<noteq> ''Deployment''
   \<and> Kind (sampleRequest ''ConfigMap'' ''CREATE'' RawGarbage) \<noteq> ''Service''
   \<and> Kind (sampleRequest ''ConfigMap'' ''CREATE'' RawGarbage) \<noteq> ''QoS''
   \<and> validate asciiToLower sampleUnmarshalDeployment sampleUnmarshalService
        (sampleRequest ''ConfigMap'' ''CREATE'' RawGarbage) =
        (\<lparr>Allowed = False, Patch = None, PatchType = None,
          Result = Some \<lparr>Message = [CHR 0x0A] @ ''Not support for this Kind of resource  ConfigMap'',
                         Reason = ''''\<rparr>\<rparr> :: unit AdmissionResponse)
   \<and> mutate asciiToLower sampleUnmarshalDeployment sampleUnmarshalService
        (sampleRequest ''ConfigMap'' ''CREATE'' RawGarbage) =
        \<lparr>Allowed = False, Patch = None, PatchType = None,
         Result = Some \<lparr>Message = [CHR 0x0A] @ ''Not support for this Kind of resource  ConfigMap'',
                        Reason = ''''\<rparr>\<rparr>
   \<and> mutate_v2 asciiToLower sampleUnmarshalDeployment_v2 sampleUnmarshalQoS sampleCompare sampleMarshalIndent
        (sampleRequest ''ConfigMap'' ''CREATE'' RawGarbage) \<lparr>Cpu = 500, Memory = 800\<rparr> =
        (\<lparr>Allowed = False, Patch = None, PatchType = None,
          Result = Some \<lparr>Message = [CHR 0x0A] @ ''Not support for this Kind of resource  ConfigMap'',
                         Reason = ''''\<rparr>\<rparr>, \<lparr>Cpu = 500, Memory = 800\<rparr>)"
  using unsupported_kind_rejected
    [where ToLower = asciiToLower and req = "sampleRequest ''ConfigMap'' ''CREATE'' RawGarbage"
       and uD = sampleUnmarshalDeployment and uS = sampleUnmarshalService
       and vD = sampleUnmarshalDeployment_v2 and vQ = sampleUnmarshalQoS
       and cmp = sampleCompare and mi = sampleMarshalIndent
       and QoSInst = "\<lparr>Cpu = 500, Memory = 800\<rparr>", where ?'p = unit]
  by (simp add: sampleRequest_def)

section \<open>Validation of the required labels\<close>

text \<open>
  C4. For an object of a supported kind that decodes, lies outside the ignored namespaces and
  for which validation is required: \<open>validate\<close> answers allowed with no result exactly when
  every required label is a key of the label map (the values are not read); when a required
  label is missing the answer is not allowed, with the reason "required labels are not set",
  and there is no patch in either case.
\<close>

theorem validate_required_labels:
  assumes "Kind req = ''Deployment'' \<and> uD (Object req) = Inr d \<and> DeploymentMeta d = meta
         \<or> Kind req = ''Service'' \<and> uS (Object req) = Inr s \<and> ServiceMeta s = meta"
    and "Namespace meta \<notin> set ignoredNamespaces"
    and "validationRequired ToLower ignoredNamespaces meta"
  shows "(Allowed (validate ToLower uD uS req :: 'p AdmissionResponse) \<and>
          Result (validate ToLower uD uS req :: 'p AdmissionResponse) = None
            \<longleftrightarrow> (\<forall>rl\<in>set requiredLabels. mapHas (Labels meta) rl))
       \<and> ((\<forall>rl\<in>set requiredLabels. mapHas (Labels meta) rl) \<longrightarrow>
            validate ToLower uD uS req =
              (\<lparr>Allowed = True, Patch = None, PatchType = None, Result = None\<rparr>
                :: 'p AdmissionResponse))
       \<and> ((\<exists>rl\<in>set requiredLabels. \<not> mapHas (Labels meta) rl) \<longrightarrow>
            validate ToLower uD uS req =
              (\<lparr>Allowed = False, Patch = None, PatchType = None,
                Result = Some \<lparr>Message = '''', Reason = ''required labels are not set''\<rparr>\<rparr>
                :: 'p AdmissionResponse))"
proof -
  have v: "validate ToLower uD uS req =
      (case checkRequiredLabels requiredLabels (Labels meta) of
         (allowed, result) \<Rightarrow>
           (\<lparr>Allowed = allowed, Patch = None, PatchType = None, Result = result\<rparr>
             :: 'p AdmissionResponse))"
    using validate_decoded
      [where ToLower = ToLower and req = req and uD = uD and uS = uS and d = d and s = s and meta = meta]
      assms(1,3) by simp
  show ?thesis
  proof (cases "\<forall>rl\<in>set requiredLabels. mapHas (Labels meta) rl")
    case True
    then show ?thesis
      by (simp add: v checkRequiredLabels_all)
  next
    case False
    then have m: "\<exists>rl\<in>set requiredLabels. \<not> mapHas (Labels meta) rl"
      by blast
    show ?thesis
      using False by (simp add: v checkRequiredLabels_missing [OF m])
  qed
qed

text \<open>
  The theorem at a Deployment that carries all six labels and at a Service that carries
  only the name label, both in the namespace "default" and without annotations.
\<close>

theorem validate_required_labels_witness:
  "Namespace (sampleMeta ''default'' allRequiredLabels None) \<notin> set ignoredNamespaces
   \<and> validationRequired asciiToLower ignoredNamespaces (sampleMeta ''default'' allRequiredLabels None)
   \<and> filter (\<lambda>rl. \<not> mapHas (Labels (sampleMeta ''default'' allRequiredLabels None)) rl)
        requiredLabels = []
   \<and> validate asciiToLower sampleUnmarshalDeployment sampleUnmarshalService
        (sampleRequest ''Deployment'' ''CREATE''
           (RawDeployment (sampleDeployment ''default'' allRequiredLabels None))) =
        (\<lparr>Allowed = True, Patch = None, PatchType = None, Result = None\<rparr> :: unit AdmissionResponse)
   \<and> Namespace (sampleMeta ''default'' onlyNameLabel None) \<notin> set ignoredNamespaces
   \<and> validationRequired asciiToLower ignoredNamespaces (sampleMeta ''default'' onlyNameLabel None)
   \<and> filter (\<lambda>rl. \<not> mapHas (Labels (sampleMeta ''default'' onlyNameLabel None)) rl)
        requiredLabels =
        [''app.kubernetes.io/instance'', ''app.kubernetes.io/version'',
         ''app.kubernetes.io/component'', ''app.kubernetes.io/part-of'',
         ''app.kubernetes.io/managed-by'']
   \<and> validate asciiToLower sampleUnmarshalDeployment sampleUnmarshalService
        (sampleRequest ''Service'' ''CREATE''
           (RawService \<lparr>ServiceMeta = sampleMeta ''default'' onlyNameLabel None\<rparr>)) =
        (\<lparr>Allowed = False, Patch = None, PatchType = None,
          Result = Some \<lparr>Message = '''', Reason = ''required labels are not set''\<rparr>\<rparr>
          :: unit AdmissionResponse)"
proof -
  have ns: "Namespace (sampleMeta ''default'' l None) \<notin> set ignoredNamespaces" for l
    by (simp add: sample_defs const_defs)
  have req: "validationRequired asciiToLower ignoredNamespaces (sampleMeta ''default'' l None)" for l
    by (simp add: sample_defs const_defs policy_defs)
  have full: "\<forall>rl\<in>set requiredLabels. mapHas (Labels (sampleMeta ''default'' allRequiredLabels None)) rl"
    by (simp add: sample_defs const_defs mapHas_def)
  have part: "\<exists>rl\<in>set requiredLabels. \<not> mapHas (Labels (sampleMeta ''default'' onlyNameLabel None)) rl"
    by (simp add: sample_defs const_defs mapHas_def)
  have a: "validate asciiToLower sampleUnmarshalDeployment sampleUnmarshalService
        (sampleRequest ''Deployment'' ''CREATE''
           (RawDeployment (sampleDeployment ''default'' allRequiredLabels None))) =
        (\<lparr>Allowed = True, Patch = None, PatchType = None, Result = None\<rparr> :: unit AdmissionResponse)"
    using validate_required_labels
      [where ToLower = asciiToLower and req = "sampleRequest ''Deployment'' ''CREATE''
                      (RawDeployment (sampleDeployment ''default'' allRequiredLabels None))"
         and uD = sampleUnmarshalDeployment and uS = sampleUnmarshalService
         and d = "sampleDeployment ''default'' allRequiredLabels None"
         and meta = "sampleMeta ''default'' allRequiredLabels None", where ?'p = unit,
       OF _ ns req] full
    by (simp add: sampleRequest_def sampleDeployment_def)
  have b: "validate asciiToLower sampleUnmarshalDeployment sampleUnmarshalService
        (sampleRequest ''Service'' ''CREATE''
           (RawService \<lparr>ServiceMeta = sampleMeta ''default'' onlyNameLabel None\<rparr>)) =
        (\<lparr>Allowed = False, Patch = None, PatchType = None,
          Result = Some \<lparr>Message = '''', Reason = ''required labels are not set''\<rparr>\<rparr>
          :: unit AdmissionResponse)"
    using validate_required_labels
      [where ToLower = asciiToLower and req = "sampleRequest ''Service'' ''CREATE''
                      (RawService \<lparr>ServiceMeta = sampleMeta ''default'' onlyNameLabel None\<rparr>)"
         and uD = sampleUnmarshalDeployment and uS = sampleUnmarshalService
         and s = "\<lparr>ServiceMeta = sampleMeta ''default'' onlyNameLabel None\<rparr>"
         and meta = "sampleMeta ''default'' onlyNameLabel None", where ?'p = unit,
       OF _ ns req] part
    by (simp add: sampleRequest_def)
  have none_missing:
    "filter (\<lambda>rl. \<not> mapHas (Labels (sampleMeta ''default'' allRequiredLabels None)) rl)
       requiredLabels = []"
    by (simp add: sample_defs const_defs mapHas_def)
  have five_missing:
    "filter (\<lambda>rl. \<not> mapHas (Labels (sampleMeta ''default'' onlyNameLabel None)) rl)
       requiredLabels =
       [''app.kubernetes.io/instance'', ''app.kubernetes.io/version'',
        ''app.kubernetes.io/component'', ''app.kubernetes.io/part-of'',
        ''app.kubernetes.io/managed-by'']"
    by (simp add: sample_defs const_defs mapHas_def)
  show ?thesis
    using ns req none_missing five_missing a b by blast
qed

section \<open>The store\<close>

text \<open>
  C5. Reading the store gives the default, 200 and 400, when the store was never set and
  after a QoS request with the DELETE operation, which resets the store to the zero value;
  it gives the value last installed by \<open>setQoSpec\<close> when that value is not the zero value;
  and a QoS request with another operation whose spec is not the zero value installs that
  spec as a whole, while one whose spec is the zero value leaves the store as it was.
\<close>

theorem qos_store_get:
  "getQoSpec initialQoSInst = \<lparr>Cpu = 200, Memory = 400\<rparr>
   \<and> (Kind req = ''QoS'' \<and> Operation req = ''DELETE'' \<and> vQ (OldObject req) = Inr qos \<longrightarrow>
        snd (mutate_v2 ToLower vD vQ cmp mi req QoSInst) = \<lparr>Cpu = 0, Memory = 0\<rparr>
        \<and> getQoSpec (snd (mutate_v2 ToLower vD vQ cmp mi req QoSInst)) = \<lparr>Cpu = 200, Memory = 400\<rparr>)
   \<and> (spec \<noteq> \<lparr>Cpu = 0, Memory = 0\<rparr> \<longrightarrow> getQoSpec (setQoSpec spec QoSInst) = spec)
   \<and> (Kind req = ''QoS'' \<and> Operation req \<noteq> ''DELETE'' \<and> vQ (Object req) = Inr qos
        \<and> Spec qos \<noteq> \<lparr>Cpu = 0, Memory = 0\<rparr> \<longrightarrow>
        snd (mutate_v2 ToLower vD vQ cmp mi req QoSInst) = Spec qos
        \<and> getQoSpec (snd (mutate_v2 ToLower vD vQ cmp mi req QoSInst)) = Spec qos)
   \<and> (Kind req = ''QoS'' \<and> Operation req \<noteq> ''DELETE'' \<and> vQ (Object req) = Inr qos
        \<and> Spec qos = \<lparr>Cpu = 0, Memory = 0\<rparr> \<longrightarrow>
        snd (mutate_v2 ToLower vD vQ cmp mi req QoSInst) = QoSInst)"
  by (simp add: getQoSpec_def initialQoSInst_def emptyQoSpec_def setQoSpec_def mutate_v2_def
      mutateQoS_def)

text \<open>
  The theorem at a DELETE request against the store 500 and 800, at a CREATE request with
  the spec 500 and 800 against the initial store, and at an UPDATE request with the zero
  spec against the store 500 and 800.
\<close>

theorem qos_store_get_witness:
  "Kind (sampleRequest ''QoS'' ''DELETE'' (RawQoS \<lparr>Spec = \<lparr>Cpu = 500, Memory = 800\<rparr>\<rparr>)) = ''QoS''
   \<and> snd (mutate_v2 asciiToLower sampleUnmarshalDeployment_v2 sampleUnmarshalQoS sampleCompare
             sampleMarshalIndent
             (sampleRequest ''QoS'' ''DELETE'' (RawQoS \<lparr>Spec = \<lparr>Cpu = 500, Memory = 800\<rparr>\<rparr>))
             \<lparr>Cpu = 500, Memory = 800\<rparr>) = \<lparr>Cpu = 0, Memory = 0\<rparr>
   \<and> getQoSpec (snd (mutate_v2 asciiToLower sampleUnmarshalDeployment_v2 sampleUnmarshalQoS sampleCompare
             sampleMarshalIndent
             (sampleRequest ''QoS'' ''DELETE'' (RawQoS \<lparr>Spec = \<lparr>Cpu = 500, Memory = 800\<rparr>\<rparr>))
             \<lparr>Cpu = 500, Memory = 800\<rparr>)) = \<lparr>Cpu = 200, Memory = 400\<rparr>
   \<and> \<lparr>Cpu = 500, Memory = 800\<rparr> \<noteq> \<lparr>Cpu = 0, Memory = 0\<rparr>
   \<and> getQoSpec (setQoSpec \<lparr>Cpu = 500, Memory = 800\<rparr> initialQoSInst) = \<lparr>Cpu = 500, Memory = 800\<rparr>
   \<and> Operation (sampleRequest ''QoS'' ''CREATE'' (RawQoS \<lparr>Spec = \<lparr>Cpu = 500, Memory = 800\<rparr>\<rparr>))
        \<noteq> ''DELETE''
   \<and> getQoSpec (snd (mutate_v2 asciiToLower sampleUnmarshalDeployment_v2 sampleUnmarshalQoS sampleCompare
             sampleMarshalIndent
             (sampleRequest ''QoS'' ''CREATE'' (RawQoS \<lparr>Spec = \<lparr>Cpu = 500, Memory = 800\<rparr>\<rparr>))
             initialQoSInst)) = \<lparr>Cpu = 500, Memory = 800\<rparr>
   \<and> snd (mutate_v2 asciiToLower sampleUnmarshalDeployment_v2 sampleUnmarshalQoS sampleCompare
             sampleMarshalIndent
             (sampleRequest ''QoS'' ''UPDATE'' (RawQoS \<lparr>Spec = \<lparr>Cpu = 0, Memory = 0\<rparr>\<rparr>))
             \<lparr>Cpu = 500, Memory = 800\<rparr>) = \<lparr>Cpu = 500, Memory = 800\<rparr>"
  using
    qos_store_get
      [where ToLower = asciiToLower and req = "sampleRequest ''QoS'' ''UPDATE'' (RawQoS \<lparr>Spec = \<lparr>Cpu = 0, Memory = 0\<rparr>\<rparr>)"
         and vQ = sampleUnmarshalQoS and vD = sampleUnmarshalDeployment_v2
         and cmp = sampleCompare and mi = sampleMarshalIndent
         and qos = "\<lparr>Spec = \<lparr>Cpu = 0, Memory = 0\<rparr>\<rparr>"
         and QoSInst = "\<lparr>Cpu = 500, Memory = 800\<rparr>"
         and spec = "\<lparr>Cpu = 500, Memory = 800\<rparr>"]
    qos_store_get
      [where ToLower = asciiToLower and req = "sampleRequest ''QoS'' ''DELETE'' (RawQoS \<lparr>Spec = \<lparr>Cpu = 500, Memory = 800\<rparr>\<rparr>)"
         and vQ = sampleUnmarshalQoS and vD = sampleUnmarshalDeployment_v2
         and cmp = sampleCompare and mi = sampleMarshalIndent
         and qos = "\<lparr>Spec = \<lparr>Cpu = 500, Memory = 800\<rparr>\<rparr>"
         and QoSInst = "\<lparr>Cpu = 500, Memory = 800\<rparr>"
         and spec = "\<lparr>Cpu = 500, Memory = 800\<rparr>"]
    qos_store_get
      [where ToLower = asciiToLower and req = "sampleRequest ''QoS'' ''CREATE'' (RawQoS \<lparr>Spec = \<lparr>Cpu = 500, Memory = 800\<rparr>\<rparr>)"
         and vQ = sampleUnmarshalQoS and vD = sampleUnmarshalDeployment_v2
         and cmp = sampleCompare and mi = sampleMarshalIndent
         and qos = "\<lparr>Spec = \<lparr>Cpu = 500, Memory = 800\<rparr>\<rparr>"
         and QoSInst = initialQoSInst
         and spec = "\<lparr>Cpu = 500, Memory = 800\<rparr>"]
  by (simp add: sampleRequest_def getQoSpec_def emptyQoSpec_def)

section \<open>The policy gate\<close>

text \<open>
  C6, as stated: \<open>mutationRequired\<close> is false exactly when the lower-cased mutate
  annotation is one of n, no, false, off, or is empty or absent, or the status annotation
  equals "mutated". Neither program does this. In the first program an object without
  annotations requires mutation; in the second an object whose status annotation is
  "mutated" and whose mutate annotation is "yes" requires mutation.
\<close>

theorem mutationRequired_claim_counterexample:
  "Namespace (sampleMeta ''default'' None None) \<notin> set ignoredNamespaces
   \<and> mapGet (Annotations (sampleMeta ''default'' None None))
        admissionWebhookAnnotationMutateKey = ''''
   \<and> mutationRequired asciiToLower ignoredNamespaces (sampleMeta ''default'' None None) = True
   \<and> Namespace (sampleMeta ''default'' None mutateYesStatusMutated) \<notin> set ignoredNamespaces
   \<and> mapGet (Annotations (sampleMeta ''default'' None mutateYesStatusMutated))
        admissionWebhookAnnotationStatusKey = ''mutated''
   \<and> mutationRequired_v2 asciiToLower ignoredNamespaces (sampleMeta ''default'' None mutateYesStatusMutated)
        = True"
  by (simp add: sample_defs const_defs policy_defs)

text \<open>
  C6, amended. Outside the ignored namespaces, the first program's \<open>mutationRequired\<close>
  is false exactly when the lower-cased mutate annotation is one of n, no, false, off, or
  the lower-cased status annotation is "mutated" (an empty or absent mutate annotation
  requires mutation); the second program's \<open>mutationRequired\<close> is false exactly when the
  lower-cased mutate annotation is one of n, no, false, off or empty (absent), and it does
  not read the status annotation.
\<close>

theorem mutationRequired_policy:
  assumes "Namespace metadata \<notin> set ignoredList"
  shows "(mutationRequired ToLower ignoredList metadata = False \<longleftrightarrow>
            ToLower (mapGet (Annotations metadata) admissionWebhookAnnotationMutateKey)
              \<in> {''n'', ''no'', ''false'', ''off''}
            \<or> ToLower (mapGet (Annotations metadata) admissionWebhookAnnotationStatusKey)
                = ''mutated'')
       \<and> (mutationRequired_v2 ToLower ignoredList metadata = False \<longleftrightarrow>
            ToLower (mapGet (Annotations metadata) admissionWebhookAnnotationMutateKey)
              \<in> {''n'', ''no'', ''false'', ''off'', ''''})"
  using assms
  by (simp add: mutationRequired_def mutationRequired_v2_def admissionRequired_def
      inIgnoredList_set mapGet_nil_as_empty policySwitch_def policySwitch_v2_def Let_def)

text \<open>The theorem at an object in "default" whose mutate annotation is "No".\<close>

theorem mutationRequired_policy_witness:
  "Namespace (sampleMeta ''default'' None mutateNo) \<notin> set ignoredNamespaces
   \<and> asciiToLower (mapGet (Annotations (sampleMeta ''default'' None mutateNo))
                admissionWebhookAnnotationMutateKey) = ''no''
   \<and> mutationRequired asciiToLower ignoredNamespaces (sampleMeta ''default'' None mutateNo) = False
   \<and> mutationRequired_v2 asciiToLower ignoredNamespaces (sampleMeta ''default'' None mutateNo) = False"
proof -
  have ns: "Namespace (sampleMeta ''default'' None mutateNo) \<notin> set ignoredNamespaces"
    by (simp add: sample_defs const_defs)
  have v: "asciiToLower (mapGet (Annotations (sampleMeta ''default'' None mutateNo))
                admissionWebhookAnnotationMutateKey) = ''no''"
    by (simp add: sample_defs const_defs mapGet_def asciiToLower_def asciiToLowerByte_def)
  show ?thesis
    using mutationRequired_policy [where ToLower = asciiToLower, OF ns] ns v by simp
qed

section \<open>Ignored namespaces\<close>

text \<open>
  C1, as stated: for an object in an ignored namespace both \<open>validate\<close> and \<open>mutate\<close>
  answer allowed with no patch and no result. The first program's \<open>mutate\<close> does not: for
  a Deployment in "kube-system" it answers with a patch.
\<close>

theorem exempt_namespace_mutate_counterexample:
  "Namespace (DeploymentMeta (sampleDeployment ''kube-system'' None None)) \<in> set ignoredNamespaces
   \<and> mutate asciiToLower sampleUnmarshalDeployment sampleUnmarshalService
        (sampleRequest ''Deployment'' ''CREATE''
           (RawDeployment (sampleDeployment ''kube-system'' None None))) =
      \<lparr>Allowed = True,
       Patch = Some
         [\<lparr>Op = ''add'', Path = ''/metadata/annotations'',
           Value = MapValue [(''admission-webhook-example.qikqiak.com/status'', ''mutated'')]\<rparr>,
          \<lparr>Op = ''replace'', Path = ''/spec/template/spec/containers/0/resources/requests/cpu'',
           Value = QuantityString \<lparr>MilliValue = 225, Format = DecimalSI\<rparr>\<rparr>,
          \<lparr>Op = ''replace'', Path = ''/spec/template/spec/containers/0/resources/requests/memory'',
           Value = QuantityString \<lparr>MilliValue = 120795955200, Format = BinarySI\<rparr>\<rparr>,
          \<lparr>Op = ''replace'', Path = ''/spec/template/spec/containers/1/resources/requests/cpu'',
           Value = QuantityString \<lparr>MilliValue = 904, Format = DecimalSI\<rparr>\<rparr>],
       PatchType = Some ''JSONPatch'', Result = None\<rparr>"
  by (simp add: mutate_def createPatch_def json_Marshal_def applyResourceReduction_def
      reducedRequest_def requestPath_def NewMilliQuantity_def int64_div_def Itoa.simps
      digitChar_def asciiToLower_def asciiToLowerByte_def sample_defs const_defs)

text \<open>
  C1, amended. For an object of a supported kind that decodes and whose namespace is in the
  ignored list, \<open>validate\<close> of the first program and \<open>mutate\<close> of the second program (for a
  Deployment) answer allowed with no patch and no result, whatever the labels, annotations
  and content are. The first program's \<open>mutate\<close> does not read the namespace (its policy
  check is commented out): it answers allowed with a patch and no result.
\<close>

theorem exempt_namespace_short_circuit:
  assumes "Namespace meta \<in> set ignoredNamespaces"
  shows "(Kind req = ''Deployment'' \<and> uD (Object req) = Inr d \<and> DeploymentMeta d = meta
          \<or> Kind req = ''Service'' \<and> uS (Object req) = Inr s \<and> ServiceMeta s = meta \<longrightarrow>
            validate ToLower uD uS req =
              (\<lparr>Allowed = True, Patch = None, PatchType = None, Result = None\<rparr>
                :: 'p AdmissionResponse)
            \<and> Allowed (mutate ToLower uD uS req) \<and> Patch (mutate ToLower uD uS req) \<noteq> None
            \<and> Result (mutate ToLower uD uS req) = None)
       \<and> (Kind req = ''Deployment'' \<and> vD (Object req) = Inr e \<and> DeploymentMeta_v2 e = meta \<longrightarrow>
            mutate_v2 ToLower vD vQ cmp mi req QoSInst =
              (\<lparr>Allowed = True, Patch = None, PatchType = None, Result = None\<rparr>, QoSInst))"
proof -
  have a: "validate ToLower uD uS req =
             (\<lparr>Allowed = True, Patch = None, PatchType = None, Result = None\<rparr>
               :: 'p AdmissionResponse)"
    if "Kind req = ''Deployment'' \<and> uD (Object req) = Inr d \<and> DeploymentMeta d = meta
        \<or> Kind req = ''Service'' \<and> uS (Object req) = Inr s \<and> ServiceMeta s = meta"
    using validate_decoded
      [where ToLower = ToLower and req = req and uD = uD and uS = uS and d = d and s = s and meta = meta] that
      validationRequired_ignored [where ToLower = ToLower, OF assms]
    by (simp add: allowedOnly_def)
  have b: "Allowed (mutate ToLower uD uS req) \<and> Patch (mutate ToLower uD uS req) \<noteq> None
           \<and> Result (mutate ToLower uD uS req) = None"
    if "Kind req = ''Deployment'' \<and> uD (Object req) = Inr d \<and> DeploymentMeta d = meta
        \<or> Kind req = ''Service'' \<and> uS (Object req) = Inr s \<and> ServiceMeta s = meta"
    using that
      mutate_Deployment [where ToLower = ToLower and req = req and uD = uD and uS = uS and d = d]
      mutate_Service [where ToLower = ToLower and req = req and uD = uD and uS = uS and s = s]
    by auto
  have c: "mutate_v2 ToLower vD vQ cmp mi req QoSInst =
             (\<lparr>Allowed = True, Patch = None, PatchType = None, Result = None\<rparr>, QoSInst)"
    if "Kind req = ''Deployment'' \<and> vD (Object req) = Inr e \<and> DeploymentMeta_v2 e = meta"
    using that mutationRequired_v2_ignored [where ToLower = ToLower, OF assms]
    by (auto simp: mutate_v2_def mutateDeploy_def allowedOnly_def)
  show ?thesis
    using a b c by blast
qed

text \<open>
  The theorem at a Deployment and at a Service of the first program and at a Deployment of
  the second program, all in "kube-system"; the Deployment of the second program asks for
  mutation in its annotation.
\<close>

theorem exempt_namespace_short_circuit_witness:
  "Namespace (sampleMeta ''kube-system'' None mutateYes) \<in> set ignoredNamespaces
   \<and> validate asciiToLower sampleUnmarshalDeployment sampleUnmarshalService
        (sampleRequest ''Deployment'' ''CREATE''
           (RawDeployment (sampleDeployment ''kube-system'' None mutateYes))) =
        (\<lparr>Allowed = True, Patch = None, PatchType = None, Result = None\<rparr> :: unit AdmissionResponse)
   \<and> validate asciiToLower sampleUnmarshalDeployment sampleUnmarshalService
        (sampleRequest ''Service'' ''CREATE''
           (RawService \<lparr>ServiceMeta = sampleMeta ''kube-system'' None mutateYes\<rparr>)) =
        (\<lparr>Allowed = True, Patch = None, PatchType = None, Result = None\<rparr> :: unit AdmissionResponse)
   \<and> Patch (mutate asciiToLower sampleUnmarshalDeployment sampleUnmarshalService
        (sampleRequest ''Service'' ''CREATE''
           (RawService \<lparr>ServiceMeta = sampleMeta ''kube-system'' None mutateYes\<rparr>))) \<noteq> None
   \<and> mutate_v2 asciiToLower sampleUnmarshalDeployment_v2 sampleUnmarshalQoS sampleCompare sampleMarshalIndent
        (sampleRequest ''Deployment'' ''CREATE''
           (RawDeployment_v2 (sampleDeployment_v2 ''kube-system'' mutateYes)))
        \<lparr>Cpu = 500, Memory = 800\<rparr> =
        (\<lparr>Allowed = True, Patch = None, PatchType = None, Result = None\<rparr>,
         \<lparr>Cpu = 500, Memory = 800\<rparr>)"
proof -
  have ns: "Namespace (sampleMeta ''kube-system'' None mutateYes) \<in> set ignoredNamespaces"
    by (simp add: sample_defs const_defs)
  note t = exempt_namespace_short_circuit
    [OF ns, where ?'p = unit and uD = sampleUnmarshalDeployment and uS = sampleUnmarshalService
       and vD = sampleUnmarshalDeployment_v2 and vQ = sampleUnmarshalQoS
       and cmp = sampleCompare and mi = sampleMarshalIndent
       and QoSInst = "\<lparr>Cpu = 500, Memory = 800\<rparr>"
       and d = "sampleDeployment ''kube-system'' None mutateYes"
       and s = "\<lparr>ServiceMeta = sampleMeta ''kube-system'' None mutateYes\<rparr>"
       and e = "sampleDeployment_v2 ''kube-system'' mutateYes"]
  have a: "validate asciiToLower sampleUnmarshalDeployment sampleUnmarshalService
        (sampleRequest ''Deployment'' ''CREATE''
           (RawDeployment (sampleDeployment ''kube-system'' None mutateYes))) =
        (\<lparr>Allowed = True, Patch = None, PatchType = None, Result = None\<rparr> :: unit AdmissionResponse)"
    using t [where ToLower = asciiToLower and req = "sampleRequest ''Deployment'' ''CREATE''
                        (RawDeployment (sampleDeployment ''kube-system'' None mutateYes))"]
    by (simp add: sampleRequest_def sampleDeployment_def)
  have b: "validate asciiToLower sampleUnmarshalDeployment sampleUnmarshalService
        (sampleRequest ''Service'' ''CREATE''
           (RawService \<lparr>ServiceMeta = sampleMeta ''kube-system'' None mutateYes\<rparr>)) =
        (\<lparr>Allowed = True, Patch = None, PatchType = None, Result = None\<rparr> :: unit AdmissionResponse)
      \<and> Patch (mutate asciiToLower sampleUnmarshalDeployment sampleUnmarshalService
        (sampleRequest ''Service'' ''CREATE''
           (RawService \<lparr>ServiceMeta = sampleMeta ''kube-system'' None mutateYes\<rparr>))) \<noteq> None"
    using t [where ToLower = asciiToLower and req = "sampleRequest ''Service'' ''CREATE''
                        (RawService \<lparr>ServiceMeta = sampleMeta ''kube-system'' None mutateYes\<rparr>)"]
    by (simp add: sampleRequest_def)
  have c: "mutate_v2 asciiToLower sampleUnmarshalDeployment_v2 sampleUnmarshalQoS sampleCompare sampleMarshalIndent
        (sampleRequest ''Deployment'' ''CREATE''
           (RawDeployment_v2 (sampleDeployment_v2 ''kube-system'' mutateYes)))
        \<lparr>Cpu = 500, Memory = 800\<rparr> =
        (\<lparr>Allowed = True, Patch = None, PatchType = None, Result = None\<rparr>,
         \<lparr>Cpu = 500, Memory = 800\<rparr>)"
    using t [where ToLower = asciiToLower and req = "sampleRequest ''Deployment'' ''CREATE''
                        (RawDeployment_v2 (sampleDeployment_v2 ''kube-system'' mutateYes))"]
    by (simp add: sampleRequest_def sampleDeployment_v2_def)
  show ?thesis
    using ns a b c by blast
qed

section \<open>Injection of the init container\<close>

text \<open>
  C3, as stated: the memory request of the injected container equals the memory value of
  the store times 1024 * 1024 bytes, for every store value. The product is computed in
  \<^verbatim>\<open>int64\<close>: with the memory value \<open>2 ^ 43\<close> in the store, the product \<open>2 ^ 63\<close> wraps
  around and the injected request is \<open>- 2 ^ 63\<close> bytes.
\<close>

theorem init_container_memory_counterexample:
  "mutationRequired_v2 asciiToLower ignoredNamespaces
     (DeploymentMeta_v2 (sampleDeployment_v2 ''default'' mutateYes))
   \<and> InitContainers (sampleDeployment_v2 ''default'' mutateYes) = []
   \<and> getQoSpec \<lparr>Cpu = 1, Memory = 8796093022208\<rparr> = \<lparr>Cpu = 1, Memory = 8796093022208\<rparr>
   \<and> mutate_v2 asciiToLower sampleUnmarshalDeployment_v2 sampleUnmarshalQoS sampleCompare sampleMarshalIndent
        (sampleRequest ''Deployment'' ''CREATE''
           (RawDeployment_v2 (sampleDeployment_v2 ''default'' mutateYes)))
        \<lparr>Cpu = 1, Memory = 8796093022208\<rparr> =
      (\<lparr>Allowed = True,
        Patch = Some
          (sampleDeployment_v2 ''default'' mutateYes,
           (sampleDeployment_v2 ''default'' mutateYes)
             \<lparr>InitContainers := [injectedContainer 1 9223372036854775808]\<rparr>),
        PatchType = Some ''JSONPatch'', Result = None\<rparr>,
       \<lparr>Cpu = 1, Memory = 8796093022208\<rparr>)
   \<and> sint (9223372036854775808 :: int64) = - 9223372036854775808
   \<and> sint (8796093022208 :: int64) * (1024 * 1024) = 9223372036854775808"
  by (simp add: mutate_v2_def mutateDeploy_def initContainer_def getQoSpec_def emptyQoSpec_def
      sample_defs const_defs policy_defs)

text \<open>
  C3, amended. For every Deployment without init containers for which mutation is required,
  when the comparison and the encoding of its result succeed, \<open>mutate\<close> answers allowed with
  the encoded difference between the Deployment and its copy with exactly one init
  container: name "init", image "busybox", the fixed command, a cpu request of as many
  thousandths as the store reads for cpu, in decimal format, and a memory request, in
  binary format, of the \<^verbatim>\<open>int64\<close> product of the store's memory value with 1024 * 1024.
  That product is the memory value times 1024 * 1024 whenever the memory value lies
  between \<open>- 2 ^ 43\<close> and \<open>2 ^ 43 - 1\<close>; with the store 500 and 800 the requests are 500
  thousandths and 838860800 bytes. The store is left as it was.
\<close>

theorem mutate_injects_init_container:
  assumes "Kind req = ''Deployment''"
    and "vD (Object req) = Inr deploy"
    and "mutationRequired_v2 ToLower ignoredNamespaces (DeploymentMeta_v2 deploy)"
    and "length (InitContainers deploy) = 0"
    and "cpuMilli = Cpu (getQoSpec QoSInst)"
    and "memoryBytes = Memory (getQoSpec QoSInst) * 1024 * 1024"
    and "Compare deploy
           (deploy\<lparr>InitContainers :=
              [\<lparr>ContainerName = ''init'', Image = ''busybox'',
                Command = [''/bin/sh'', ''-c'', '' echo 'init' && sleep 100 ''],
                Requests_v2 =
                  [(''cpu'', NewMilliQuantity_v2 cpuMilli DecimalSI),
                   (''memory'', NewQuantity_v2 memoryBytes BinarySI)]\<rparr>]\<rparr>) = Inr patch"
    and "MarshalIndent patch = Inr patchBytes"
  shows "mutate_v2 ToLower vD vQ Compare MarshalIndent req QoSInst =
           (\<lparr>Allowed = True, Patch = Some patchBytes, PatchType = Some ''JSONPatch'',
             Result = None\<rparr>, QoSInst)
       \<and> (- (2 ^ 43) \<le> sint (Memory (getQoSpec QoSInst))
            \<and> sint (Memory (getQoSpec QoSInst)) < 2 ^ 43 \<longrightarrow>
          sint memoryBytes = sint (Memory (getQoSpec QoSInst)) * (1024 * 1024))
       \<and> (QoSInst = \<lparr>Cpu = 500, Memory = 800\<rparr> \<longrightarrow> cpuMilli = 500 \<and> memoryBytes = 838860800)"
proof -
  have "mutateDeploy ToLower Compare MarshalIndent QoSInst deploy =
           \<lparr>Allowed = True, Patch = Some patchBytes, PatchType = Some ''JSONPatch'',
            Result = None\<rparr>"
    using assms(3-8) by (simp add: mutateDeploy_def initContainer_def)
  then have "mutate_v2 ToLower vD vQ Compare MarshalIndent req QoSInst =
           (\<lparr>Allowed = True, Patch = Some patchBytes, PatchType = Some ''JSONPatch'',
             Result = None\<rparr>, QoSInst)"
    using assms(1,2) by (simp add: mutate_v2_def)
  moreover have "sint memoryBytes = sint (Memory (getQoSpec QoSInst)) * (1024 * 1024)"
    if "- (2 ^ 43) \<le> sint (Memory (getQoSpec QoSInst))"
      and "sint (Memory (getQoSpec QoSInst)) < 2 ^ 43"
    using mebibytes_in_range [OF that] assms(6) by simp
  moreover have "cpuMilli = 500 \<and> memoryBytes = 838860800"
    if "QoSInst = \<lparr>Cpu = 500, Memory = 800\<rparr>"
    using that assms(5,6) by (simp add: getQoSpec_def emptyQoSpec_def)
  ultimately show ?thesis
    by blast
qed

text \<open>
  The theorem at a Deployment in "default" that asks for mutation and has no init
  container, with the store 500 and 800.
\<close>

theorem mutate_injects_init_container_witness:
  "mutationRequired_v2 asciiToLower ignoredNamespaces
     (DeploymentMeta_v2 (sampleDeployment_v2 ''default'' mutateYes))
   \<and> length (InitContainers (sampleDeployment_v2 ''default'' mutateYes)) = 0
   \<and> Cpu (getQoSpec \<lparr>Cpu = 500, Memory = 800\<rparr>) = 500
   \<and> Memory (getQoSpec \<lparr>Cpu = 500, Memory = 800\<rparr>) * 1024 * 1024 = 838860800
   \<and> sint (838860800 :: int64) = 800 * (1024 * 1024)
   \<and> mutate_v2 asciiToLower sampleUnmarshalDeployment_v2 sampleUnmarshalQoS sampleCompare sampleMarshalIndent
        (sampleRequest ''Deployment'' ''CREATE''
           (RawDeployment_v2 (sampleDeployment_v2 ''default'' mutateYes)))
        \<lparr>Cpu = 500, Memory = 800\<rparr> =
      (\<lparr>Allowed = True,
        Patch = Some
          (sampleDeployment_v2 ''default'' mutateYes,
           (sampleDeployment_v2 ''default'' mutateYes)
             \<lparr>InitContainers := [injectedContainer 500 838860800]\<rparr>),
        PatchType = Some ''JSONPatch'', Result = None\<rparr>,
       \<lparr>Cpu = 500, Memory = 800\<rparr>)"
proof -
  have kind: "Kind (sampleRequest ''Deployment'' ''CREATE''
           (RawDeployment_v2 (sampleDeployment_v2 ''default'' mutateYes))) = ''Deployment''"
    by (simp add: sampleRequest_def)
  have dec: "sampleUnmarshalDeployment_v2
      (Object (sampleRequest ''Deployment'' ''CREATE''
           (RawDeployment_v2 (sampleDeployment_v2 ''default'' mutateYes))))
      = Inr (sampleDeployment_v2 ''default'' mutateYes)"
    by (simp add: sampleRequest_def)
  have req: "mutationRequired_v2 asciiToLower ignoredNamespaces
     (DeploymentMeta_v2 (sampleDeployment_v2 ''default'' mutateYes))"
    by (simp add: sample_defs const_defs policy_defs)
  have none: "length (InitContainers (sampleDeployment_v2 ''default'' mutateYes)) = 0"
    by (simp add: sample_defs)
  have cpu: "(500 :: int64) = Cpu (getQoSpec \<lparr>Cpu = 500, Memory = 800\<rparr>)"
    by (simp add: getQoSpec_def emptyQoSpec_def)
  have mem: "(838860800 :: int64) = Memory (getQoSpec \<lparr>Cpu = 500, Memory = 800\<rparr>) * 1024 * 1024"
    by (simp add: getQoSpec_def emptyQoSpec_def)
  have cmp: "sampleCompare (sampleDeployment_v2 ''default'' mutateYes)
      ((sampleDeployment_v2 ''default'' mutateYes)
         \<lparr>InitContainers :=
            [\<lparr>ContainerName = ''init'', Image = ''busybox'',
              Command = [''/bin/sh'', ''-c'', '' echo 'init' && sleep 100 ''],
              Requests_v2 =
                [(''cpu'', NewMilliQuantity_v2 500 DecimalSI),
                 (''memory'', NewQuantity_v2 838860800 BinarySI)]\<rparr>]\<rparr>)
      = Inr (sampleDeployment_v2 ''default'' mutateYes,
          (sampleDeployment_v2 ''default'' mutateYes)
            \<lparr>InitContainers := [injectedContainer 500 838860800]\<rparr>)"
    by (simp add: sampleCompare_def injectedContainer_def)
  have enc: "sampleMarshalIndent (sampleDeployment_v2 ''default'' mutateYes,
          (sampleDeployment_v2 ''default'' mutateYes)
            \<lparr>InitContainers := [injectedContainer 500 838860800]\<rparr>)
      = Inr (sampleDeployment_v2 ''default'' mutateYes,
          (sampleDeployment_v2 ''default'' mutateYes)
            \<lparr>InitContainers := [injectedContainer 500 838860800]\<rparr>)"
    by (simp add: sampleMarshalIndent_def)
  show ?thesis
    using mutate_injects_init_container
      [where ToLower = asciiToLower and req = "sampleRequest ''Deployment'' ''CREATE''
                      (RawDeployment_v2 (sampleDeployment_v2 ''default'' mutateYes))"
         and vD = sampleUnmarshalDeployment_v2 and vQ = sampleUnmarshalQoS
         and Compare = sampleCompare and MarshalIndent = sampleMarshalIndent
         and QoSInst = "\<lparr>Cpu = 500, Memory = 800\<rparr>"
         and deploy = "sampleDeployment_v2 ''default'' mutateYes"
         and cpuMilli = 500 and memoryBytes = 838860800,
       OF kind dec req none cpu mem cmp enc]
      req none cpu [symmetric] mem [symmetric]
    by simp
qed

section \<open>The annotation patch of the first program\<close>

lemma requestPath_elsewhere:
  "take (length annotationsPath) (requestPath ToLower i r) \<noteq> annotationsPath"
  by (simp add: requestPath_def annotationsPath_def)

lemma reduceRequests_replace_elsewhere:
  "p \<in> set (reduceRequests ToLower i reqs) \<Longrightarrow>
   Op p = ''replace'' \<and> take (length annotationsPath) (Path p) \<noteq> annotationsPath"
  by (induction reqs) (auto simp: reducedRequest_def requestPath_elsewhere)

lemma reduceContainers_replace_elsewhere:
  "p \<in> set (reduceContainers ToLower i cs) \<Longrightarrow>
   Op p = ''replace'' \<and> take (length annotationsPath) (Path p) \<noteq> annotationsPath"
  by (induction cs arbitrary: i) (auto dest: reduceRequests_replace_elsewhere)

lemma applyToAnnotations_elsewhere:
  "(\<forall>p\<in>set ps. take (length annotationsPath) (Path p) \<noteq> annotationsPath) \<Longrightarrow>
   applyToAnnotations ps annotations = Some annotations"
  by (induction ps) auto

lemma applyToAnnotations_reduction:
  "applyToAnnotations (applyResourceReduction ToLower containers) annotations = Some annotations"
  by (rule applyToAnnotations_elsewhere)
    (auto simp: applyResourceReduction_def dest: reduceContainers_replace_elsewhere)

lemma mutate_supported:
  assumes "Kind req = ''Deployment'' \<and> uD (Object req) = Inr d \<and> containers = Containers d
         \<or> Kind req = ''Service'' \<and> uS (Object req) = Inr s \<and> containers = []"
  shows "mutate ToLower uD uS req =
     \<lparr>Allowed = True,
      Patch = Some (\<lparr>Op = ''add'', Path = ''/metadata/annotations'',
                     Value = MapValue [(admissionWebhookAnnotationStatusKey, ''mutated'')]\<rparr>
                    # applyResourceReduction ToLower containers),
      PatchType = Some ''JSONPatch'', Result = None\<rparr>"
  using assms
    mutate_Deployment [where ToLower = ToLower and req = req and uD = uD and uS = uS and d = d]
    mutate_Service [where ToLower = ToLower and req = req and uD = uD and uS = uS and s = s]
  by (auto simp: applyResourceReduction_def)

lemma applyToAnnotations_status_add:
  "applyToAnnotations
     (\<lparr>Op = ''add'', Path = ''/metadata/annotations'',
       Value = MapValue [(admissionWebhookAnnotationStatusKey, ''mutated'')]\<rparr>
      # applyResourceReduction ToLower containers) existing =
   Some (Some [admissionWebhookAnnotationStatusKey \<mapsto> ''mutated''])"
  by (simp add: annotationsPath_def applyToAnnotations_reduction)

text \<open>
  C10. For a request of a supported kind that decodes, the patch of the first program's
  \<open>mutate\<close> begins with the \<^verbatim>\<open>add\<close> at \<^verbatim>\<open>/metadata/annotations\<close> whose value is the map with
  the single entry status key to "mutated"; the operations after it are the \<^verbatim>\<open>replace\<close>
  operations of the request reduction, none of which has a path at or below
  \<^verbatim>\<open>/metadata/annotations\<close>. The response is a function of the containers alone, so the
  annotations of the object are not read; applied to any existing annotations, the patch
  leaves exactly the single-entry map.
\<close>

theorem mutate_adds_status_annotation:
  assumes "Kind req = ''Deployment'' \<and> uD (Object req) = Inr d \<and> containers = Containers d
         \<or> Kind req = ''Service'' \<and> uS (Object req) = Inr s \<and> containers = []"
  shows "mutate ToLower uD uS req =
           \<lparr>Allowed = True,
            Patch = Some
              (\<lparr>Op = ''add'', Path = ''/metadata/annotations'',
                Value = MapValue [(''admission-webhook-example.qikqiak.com/status'', ''mutated'')]\<rparr>
               # applyResourceReduction ToLower containers),
            PatchType = Some ''JSONPatch'', Result = None\<rparr>
       \<and> (\<forall>p\<in>set (applyResourceReduction ToLower containers).
            Op p = ''replace''
            \<and> take (length ''/metadata/annotations'') (Path p) \<noteq> ''/metadata/annotations'')
       \<and> (\<forall>existing.
            applyToAnnotations
              (\<lparr>Op = ''add'', Path = ''/metadata/annotations'',
                Value = MapValue [(''admission-webhook-example.qikqiak.com/status'', ''mutated'')]\<rparr>
               # applyResourceReduction ToLower containers) existing =
            Some (Some [''admission-webhook-example.qikqiak.com/status'' \<mapsto> ''mutated'']))"
proof -
  have a: "mutate ToLower uD uS req =
           \<lparr>Allowed = True,
            Patch = Some
              (\<lparr>Op = ''add'', Path = ''/metadata/annotations'',
                Value = MapValue [(''admission-webhook-example.qikqiak.com/status'', ''mutated'')]\<rparr>
               # applyResourceReduction ToLower containers),
            PatchType = Some ''JSONPatch'', Result = None\<rparr>"
    using mutate_supported
      [where ToLower = ToLower and req = req and uD = uD and uS = uS and d = d and s = s
         and containers = containers] assms
    by (simp add: admissionWebhookAnnotationStatusKey_def)
  have b: "Op p = ''replace''
           \<and> take (length ''/metadata/annotations'') (Path p) \<noteq> ''/metadata/annotations''"
    if "p \<in> set (applyResourceReduction ToLower containers)" for p
    using that reduceContainers_replace_elsewhere [of p ToLower 0 containers]
    by (simp add: applyResourceReduction_def annotationsPath_def)
  have c: "applyToAnnotations
              (\<lparr>Op = ''add'', Path = ''/metadata/annotations'',
                Value = MapValue [(''admission-webhook-example.qikqiak.com/status'', ''mutated'')]\<rparr>
               # applyResourceReduction ToLower containers) existing =
            Some (Some [''admission-webhook-example.qikqiak.com/status'' \<mapsto> ''mutated''])"
    for existing
    using applyToAnnotations_status_add [of ToLower containers existing]
    by (simp add: admissionWebhookAnnotationStatusKey_def)
  show ?thesis
    using a b c by blast
qed

text \<open>
  The theorem at a Deployment in "default" that already carries the annotations mutate
  "yes" and status "mutated".
\<close>

theorem mutate_adds_status_annotation_witness:
  "Kind (sampleRequest ''Deployment'' ''CREATE''
           (RawDeployment (sampleDeployment ''default'' None mutateYesStatusMutated)))
     = ''Deployment''
   \<and> sampleUnmarshalDeployment
        (Object (sampleRequest ''Deployment'' ''CREATE''
           (RawDeployment (sampleDeployment ''default'' None mutateYesStatusMutated))))
     = Inr (sampleDeployment ''default'' None mutateYesStatusMutated)
   \<and> mutate asciiToLower sampleUnmarshalDeployment sampleUnmarshalService
        (sampleRequest ''Deployment'' ''CREATE''
           (RawDeployment (sampleDeployment ''default'' None mutateYesStatusMutated))) =
      \<lparr>Allowed = True,
       Patch = Some
         [\<lparr>Op = ''add'', Path = ''/metadata/annotations'',
           Value = MapValue [(''admission-webhook-example.qikqiak.com/status'', ''mutated'')]\<rparr>,
          \<lparr>Op = ''replace'', Path = ''/spec/template/spec/containers/0/resources/requests/cpu'',
           Value = QuantityString \<lparr>MilliValue = 225, Format = DecimalSI\<rparr>\<rparr>,
          \<lparr>Op = ''replace'', Path = ''/spec/template/spec/containers/0/resources/requests/memory'',
           Value = QuantityString \<lparr>MilliValue = 120795955200, Format = BinarySI\<rparr>\<rparr>,
          \<lparr>Op = ''replace'', Path = ''/spec/template/spec/containers/1/resources/requests/cpu'',
           Value = QuantityString \<lparr>MilliValue = 904, Format = DecimalSI\<rparr>\<rparr>],
       PatchType = Some ''JSONPatch'', Result = None\<rparr>
   \<and> applyToAnnotations
        [\<lparr>Op = ''add'', Path = ''/metadata/annotations'',
           Value = MapValue [(''admission-webhook-example.qikqiak.com/status'', ''mutated'')]\<rparr>,
          \<lparr>Op = ''replace'', Path = ''/spec/template/spec/containers/0/resources/requests/cpu'',
           Value = QuantityString \<lparr>MilliValue = 225, Format = DecimalSI\<rparr>\<rparr>,
          \<lparr>Op = ''replace'', Path = ''/spec/template/spec/containers/0/resources/requests/memory'',
           Value = QuantityString \<lparr>MilliValue = 120795955200, Format = BinarySI\<rparr>\<rparr>,
          \<lparr>Op = ''replace'', Path = ''/spec/template/spec/containers/1/resources/requests/cpu'',
           Value = QuantityString \<lparr>MilliValue = 904, Format = DecimalSI\<rparr>\<rparr>]
        mutateYesStatusMutated = Some statusMutated"
proof -
  have r: "applyResourceReduction asciiToLower sampleContainers =
      [\<lparr>Op = ''replace'', Path = ''/spec/template/spec/containers/0/resources/requests/cpu'',
           Value = QuantityString \<lparr>MilliValue = 225, Format = DecimalSI\<rparr>\<rparr>,
          \<lparr>Op = ''replace'', Path = ''/spec/template/spec/containers/0/resources/requests/memory'',
           Value = QuantityString \<lparr>MilliValue = 120795955200, Format = BinarySI\<rparr>\<rparr>,
          \<lparr>Op = ''replace'', Path = ''/spec/template/spec/containers/1/resources/requests/cpu'',
           Value = QuantityString \<lparr>MilliValue = 904, Format = DecimalSI\<rparr>\<rparr>]"
    by (simp add: applyResourceReduction_def reducedRequest_def requestPath_def
        NewMilliQuantity_def int64_div_def Itoa.simps digitChar_def asciiToLower_def asciiToLowerByte_def
        sampleContainers_def)
  have h: "Kind (sampleRequest ''Deployment'' ''CREATE''
             (RawDeployment (sampleDeployment ''default'' None mutateYesStatusMutated)))
           = ''Deployment''
         \<and> sampleUnmarshalDeployment
             (Object (sampleRequest ''Deployment'' ''CREATE''
               (RawDeployment (sampleDeployment ''default'' None mutateYesStatusMutated))))
           = Inr (sampleDeployment ''default'' None mutateYesStatusMutated)
         \<and> sampleContainers = Containers (sampleDeployment ''default'' None mutateYesStatusMutated)"
    by (simp add: sampleRequest_def sampleDeployment_def)
  show ?thesis
    using mutate_adds_status_annotation
      [where ToLower = asciiToLower and req = "sampleRequest ''Deployment'' ''CREATE''
                      (RawDeployment (sampleDeployment ''default'' None mutateYesStatusMutated))"
         and uD = sampleUnmarshalDeployment and uS = sampleUnmarshalService
         and d = "sampleDeployment ''default'' None mutateYesStatusMutated"
         and containers = sampleContainers, OF disjI1, OF h] h
    by (simp add: r statusMutated_def)
qed

text \<open>
  C8, as stated: after the annotation patch of \<open>mutate\<close> is applied to the object, computing
  the patch again gives no further \<^verbatim>\<open>add\<close> or \<^verbatim>\<open>replace\<close> for the same annotation keys. For
  the sample Deployment the second patch again begins with the \<^verbatim>\<open>add\<close> of the status key.
\<close>

theorem annotation_patch_recomputed_counterexample:
  "mutate asciiToLower sampleUnmarshalDeployment sampleUnmarshalService
     (sampleRequest ''Deployment'' ''CREATE''
        (RawDeployment (sampleDeployment ''default'' None None))) =
     \<lparr>Allowed = True,
      Patch = Some
        [\<lparr>Op = ''add'', Path = ''/metadata/annotations'',
          Value = MapValue [(''admission-webhook-example.qikqiak.com/status'', ''mutated'')]\<rparr>,
         \<lparr>Op = ''replace'', Path = ''/spec/template/spec/containers/0/resources/requests/cpu'',
          Value = QuantityString \<lparr>MilliValue = 225, Format = DecimalSI\<rparr>\<rparr>,
         \<lparr>Op = ''replace'', Path = ''/spec/template/spec/containers/0/resources/requests/memory'',
          Value = QuantityString \<lparr>MilliValue = 120795955200, Format = BinarySI\<rparr>\<rparr>,
         \<lparr>Op = ''replace'', Path = ''/spec/template/spec/containers/1/resources/requests/cpu'',
          Value = QuantityString \<lparr>MilliValue = 904, Format = DecimalSI\<rparr>\<rparr>],
      PatchType = Some ''JSONPatch'', Result = None\<rparr>
   \<and> applyToAnnotations
        [\<lparr>Op = ''add'', Path = ''/metadata/annotations'',
          Value = MapValue [(''admission-webhook-example.qikqiak.com/status'', ''mutated'')]\<rparr>,
         \<lparr>Op = ''replace'', Path = ''/spec/template/spec/containers/0/resources/requests/cpu'',
          Value = QuantityString \<lparr>MilliValue = 225, Format = DecimalSI\<rparr>\<rparr>,
         \<lparr>Op = ''replace'', Path = ''/spec/template/spec/containers/0/resources/requests/memory'',
          Value = QuantityString \<lparr>MilliValue = 120795955200, Format = BinarySI\<rparr>\<rparr>,
         \<lparr>Op = ''replace'', Path = ''/spec/template/spec/containers/1/resources/requests/cpu'',
          Value = QuantityString \<lparr>MilliValue = 904, Format = DecimalSI\<rparr>\<rparr>]
        (Annotations (DeploymentMeta (sampleDeployment ''default'' None None)))
      = Some (Annotations (DeploymentMeta samplePatchedDeployment))
   \<and> mutate asciiToLower sampleUnmarshalDeployment sampleUnmarshalService
        (sampleRequest ''Deployment'' ''CREATE'' (RawDeployment samplePatchedDeployment)) =
     \<lparr>Allowed = True,
      Patch = Some
        [\<lparr>Op = ''add'', Path = ''/metadata/annotations'',
          Value = MapValue [(''admission-webhook-example.qikqiak.com/status'', ''mutated'')]\<rparr>,
         \<lparr>Op = ''replace'', Path = ''/spec/template/spec/containers/0/resources/requests/cpu'',
          Value = QuantityString \<lparr>MilliValue = 202, Format = DecimalSI\<rparr>\<rparr>,
         \<lparr>Op = ''replace'', Path = ''/spec/template/spec/containers/0/resources/requests/memory'',
          Value = QuantityString \<lparr>MilliValue = 108716359680, Format = BinarySI\<rparr>\<rparr>,
         \<lparr>Op = ''replace'', Path = ''/spec/template/spec/containers/1/resources/requests/cpu'',
          Value = QuantityString \<lparr>MilliValue = 813, Format = DecimalSI\<rparr>\<rparr>],
      PatchType = Some ''JSONPatch'', Result = None\<rparr>"
  by (simp add: mutate_def createPatch_def json_Marshal_def applyResourceReduction_def
      reducedRequest_def requestPath_def NewMilliQuantity_def int64_div_def Itoa.simps
      digitChar_def asciiToLower_def asciiToLowerByte_def annotationsPath_def sample_defs const_defs)

text \<open>
  C8, amended. For every object of a supported kind that decodes, applying the patch of
  \<open>mutate\<close> leaves the annotations as the single entry status key to "mutated"; computing
  the patch against an object with these annotations gives the same \<^verbatim>\<open>add\<close> at
  \<^verbatim>\<open>/metadata/annotations\<close> again, and applying that second patch leaves the annotations
  unchanged.
\<close>

theorem annotation_patch_recomputed:
  assumes "Kind req = ''Deployment'' \<and> uD (Object req) = Inr d \<and> meta = DeploymentMeta d
         \<or> Kind req = ''Service'' \<and> uS (Object req) = Inr s \<and> meta = ServiceMeta s"
    and "Patch (mutate ToLower uD uS req) = Some patch"
    and "applyToAnnotations patch (Annotations meta) = Some patched"
    and "Kind req' = ''Deployment'' \<and> uD (Object req') = Inr d'
           \<and> Annotations (DeploymentMeta d') = patched \<and> containers' = Containers d'
         \<or> Kind req' = ''Service'' \<and> uS (Object req') = Inr s'
           \<and> Annotations (ServiceMeta s') = patched \<and> containers' = []"
  shows "patched = Some [''admission-webhook-example.qikqiak.com/status'' \<mapsto> ''mutated'']
       \<and> Patch (mutate ToLower uD uS req') =
           Some (\<lparr>Op = ''add'', Path = ''/metadata/annotations'',
                   Value = MapValue
                     [(''admission-webhook-example.qikqiak.com/status'', ''mutated'')]\<rparr>
                 # applyResourceReduction ToLower containers')
       \<and> applyToAnnotations
            (\<lparr>Op = ''add'', Path = ''/metadata/annotations'',
              Value = MapValue [(''admission-webhook-example.qikqiak.com/status'', ''mutated'')]\<rparr>
             # applyResourceReduction ToLower containers') patched = Some patched"
proof -
  obtain containers where first:
    "Kind req = ''Deployment'' \<and> uD (Object req) = Inr d \<and> containers = Containers d
     \<or> Kind req = ''Service'' \<and> uS (Object req) = Inr s \<and> containers = []"
    using assms(1) by auto
  have "patch = \<lparr>Op = ''add'', Path = ''/metadata/annotations'',
                  Value = MapValue [(admissionWebhookAnnotationStatusKey, ''mutated'')]\<rparr>
                # applyResourceReduction ToLower containers"
    using mutate_supported
      [where ToLower = ToLower and req = req and uD = uD and uS = uS and d = d and s = s
         and containers = containers] first assms(2)
    by simp
  then have p: "patched = Some [admissionWebhookAnnotationStatusKey \<mapsto> ''mutated'']"
    using assms(3) applyToAnnotations_status_add [of ToLower containers "Annotations meta"] by simp
  have second:
    "Kind req' = ''Deployment'' \<and> uD (Object req') = Inr d' \<and> containers' = Containers d'
     \<or> Kind req' = ''Service'' \<and> uS (Object req') = Inr s' \<and> containers' = []"
    using assms(4) by auto
  have q: "Patch (mutate ToLower uD uS req') =
      Some (\<lparr>Op = ''add'', Path = ''/metadata/annotations'',
              Value = MapValue [(admissionWebhookAnnotationStatusKey, ''mutated'')]\<rparr>
            # applyResourceReduction ToLower containers')"
    using mutate_supported
      [where ToLower = ToLower and req = req' and uD = uD and uS = uS and d = d' and s = s'
         and containers = containers'] second
    by simp
  show ?thesis
    using p q applyToAnnotations_status_add [of ToLower containers' patched]
    by (simp add: admissionWebhookAnnotationStatusKey_def)
qed

text \<open>The theorem at the sample Deployment without annotations and at its patched form.\<close>

theorem annotation_patch_recomputed_witness:
  "applyToAnnotations
     (\<lparr>Op = ''add'', Path = ''/metadata/annotations'',
       Value = MapValue [(''admission-webhook-example.qikqiak.com/status'', ''mutated'')]\<rparr>
      # applyResourceReduction asciiToLower sampleContainers)
     (Annotations (sampleMeta ''default'' None None)) = Some statusMutated
   \<and> Annotations (DeploymentMeta samplePatchedDeployment) = statusMutated
   \<and> Patch (mutate asciiToLower sampleUnmarshalDeployment sampleUnmarshalService
        (sampleRequest ''Deployment'' ''CREATE'' (RawDeployment samplePatchedDeployment))) =
      Some (\<lparr>Op = ''add'', Path = ''/metadata/annotations'',
              Value = MapValue [(''admission-webhook-example.qikqiak.com/status'', ''mutated'')]\<rparr>
            # applyResourceReduction asciiToLower (Containers samplePatchedDeployment))
   \<and> applyToAnnotations
        (\<lparr>Op = ''add'', Path = ''/metadata/annotations'',
          Value = MapValue [(''admission-webhook-example.qikqiak.com/status'', ''mutated'')]\<rparr>
         # applyResourceReduction asciiToLower (Containers samplePatchedDeployment)) statusMutated =
      Some statusMutated"
proof -
  have a: "Kind (sampleRequest ''Deployment'' ''CREATE''
                  (RawDeployment (sampleDeployment ''default'' None None))) = ''Deployment''
         \<and> sampleUnmarshalDeployment
             (Object (sampleRequest ''Deployment'' ''CREATE''
                (RawDeployment (sampleDeployment ''default'' None None))))
           = Inr (sampleDeployment ''default'' None None)
         \<and> sampleMeta ''default'' None None
           = DeploymentMeta (sampleDeployment ''default'' None None)"
    by (simp add: sampleRequest_def sampleDeployment_def)
  have b: "Patch (mutate asciiToLower sampleUnmarshalDeployment sampleUnmarshalService
             (sampleRequest ''Deployment'' ''CREATE''
                (RawDeployment (sampleDeployment ''default'' None None)))) =
           Some (\<lparr>Op = ''add'', Path = ''/metadata/annotations'',
                   Value = MapValue
                     [(''admission-webhook-example.qikqiak.com/status'', ''mutated'')]\<rparr>
                 # applyResourceReduction asciiToLower sampleContainers)"
    by (simp add: mutate_def createPatch_def json_Marshal_def sampleRequest_def
        sampleDeployment_def const_defs)
  have c: "applyToAnnotations
     (\<lparr>Op = ''add'', Path = ''/metadata/annotations'',
       Value = MapValue [(''admission-webhook-example.qikqiak.com/status'', ''mutated'')]\<rparr>
      # applyResourceReduction asciiToLower sampleContainers)
     (Annotations (sampleMeta ''default'' None None)) = Some statusMutated"
    using applyToAnnotations_status_add [of asciiToLower sampleContainers]
    by (simp add: statusMutated_def const_defs)
  have e: "Kind (sampleRequest ''Deployment'' ''CREATE''
                  (RawDeployment samplePatchedDeployment)) = ''Deployment''
         \<and> sampleUnmarshalDeployment
             (Object (sampleRequest ''Deployment'' ''CREATE''
                (RawDeployment samplePatchedDeployment)))
           = Inr samplePatchedDeployment
         \<and> Annotations (DeploymentMeta samplePatchedDeployment) = statusMutated
         \<and> Containers samplePatchedDeployment = Containers samplePatchedDeployment"
    by (simp add: sampleRequest_def samplePatchedDeployment_def sampleMeta_def)
  show ?thesis
    using annotation_patch_recomputed
      [where ToLower = asciiToLower and req = "sampleRequest ''Deployment'' ''CREATE''
                      (RawDeployment (sampleDeployment ''default'' None None))"
         and uD = sampleUnmarshalDeployment and uS = sampleUnmarshalService
         and d = "sampleDeployment ''default'' None None"
         and meta = "sampleMeta ''default'' None None"
         and patched = statusMutated
         and req' = "sampleRequest ''Deployment'' ''CREATE''
                      (RawDeployment samplePatchedDeployment)"
         and d' = samplePatchedDeployment
         and containers' = "Containers samplePatchedDeployment",
       OF disjI1 b c disjI1, OF a e] c e
    by simp
qed

section \<open>The annotation merge\<close>

lemma updateAnnotation_emptied:
  "updateAnnotation (Some Map.empty) added =
   map (\<lambda>(key, value).
          \<lparr>Op = ''add'', Path = ''/metadata/annotations'', Value = MapValue [(key, value)]\<rparr>)
       added"
  by (induction added) (auto simp: mapGet_def)

lemma updateAnnotation_split:
  "updateAnnotation target added =
   map (\<lambda>(key, value).
          \<lparr>Op = ''replace'', Path = ''/metadata/annotations/'' @ key, Value = StringValue value\<rparr>)
       (takeWhile (\<lambda>(key, value). \<not> (target = None \<or> mapGet target key = '''')) added)
   @ map (\<lambda>(key, value).
          \<lparr>Op = ''add'', Path = ''/metadata/annotations'', Value = MapValue [(key, value)]\<rparr>)
       (dropWhile (\<lambda>(key, value). \<not> (target = None \<or> mapGet target key = '''')) added)"
  by (induction added) (auto simp: updateAnnotation_emptied)








section \<open>The reduction of the requests\<close>
















end
